theory Spec2Isabelle
  imports Complex_Main
begin

section \<open>Policy-gradient trainers of \<open>algorithms.py\<close>\<close>

text \<open>
  The development embeds \<open>ReinforceBaselineAlg\<close> and \<open>HRLReinforceAlg\<close>.
  Python floats are read as real numbers (no rounding, no NaN), Python integers as
  \<open>int\<close>. Every \<open>raise\<close> is a value of \<open>error\<close>; an object's mutable
  attributes are a record that each method returns updated, also when it raises.
  The logger, the checkpoint sink and the optimizers are seen through the trace of the
  calls made on them, in program order.
\<close>

subsection \<open>Exceptions\<close>

datatype error =
    ValueError
  | IndexError
  | KeyError
  | AttributeError
  | UnboundLocalError
  | ZeroDivisionError
  | RuntimeError

subsection \<open>Python lists and integers\<close>

definition py_slice_from :: "'a list \<Rightarrow> int \<Rightarrow> 'a list" where
  \<comment> \<open>\<open>xs[k:]\<close>; a negative start counts from the end.\<close>
  "py_slice_from xs k =
     (if k < 0 then drop (nat (int (length xs) + k)) xs else drop (nat k) xs)"

definition py_index :: "int \<Rightarrow> int \<Rightarrow> nat" where
  \<comment> \<open>A slice bound \<open>k\<close> clipped into a sequence of length \<open>n\<close>.\<close>
  "py_index n k = (if k < 0 then nat (max 0 (n + k)) else nat (min n k))"

definition py_slice :: "'a list \<Rightarrow> int \<Rightarrow> int \<Rightarrow> 'a list" where
  \<comment> \<open>\<open>xs[a:b]\<close>.\<close>
  "py_slice xs a b =
     (let n = int (length xs); lo = py_index n a; hi = py_index n b
      in take (hi - lo) (drop lo xs))"

definition py_getitem :: "'a list \<Rightarrow> int \<Rightarrow> error + 'a" where
  \<comment> \<open>\<open>xs[i]\<close>; an index below zero is read from the end.\<close>
  "py_getitem xs i =
     (if 0 \<le> i \<and> i < int (length xs) then Inr (xs ! nat i)
      else if i < 0 \<and> - int (length xs) \<le> i then Inr (xs ! nat (int (length xs) + i))
      else Inl IndexError)"

definition int_of_quotient :: "int \<Rightarrow> int \<Rightarrow> int" where
  \<comment> \<open>\<open>int(a / b)\<close> for \<open>b \<noteq> 0\<close>: the true quotient, truncated towards zero.\<close>
  "int_of_quotient a b = sgn a * sgn b * (\<bar>a\<bar> div \<bar>b\<bar>)"

subsection \<open>Arrays\<close>

text \<open>
  A two-dimensional numpy array in row-major order. A column vector has \<open>ncols = 1\<close>.
\<close>

record ndarray =
  nrows :: nat
  ncols :: nat
  elems :: "real list"

definition np_vstack_scalars :: "real list \<Rightarrow> error + ndarray" where
  \<comment> \<open>\<open>np.vstack\<close> of a list of scalars: one row per scalar; an empty list raises.\<close>
  "np_vstack_scalars rs =
     (if rs = [] then Inl ValueError
      else Inr \<lparr>nrows = length rs, ncols = 1, elems = rs\<rparr>)"

definition np_vstack :: "ndarray list \<Rightarrow> error + ndarray" where
  \<comment> \<open>\<open>np.vstack\<close> of matrices: they must agree on the number of columns.\<close>
  "np_vstack ms =
     (case ms of
        [] \<Rightarrow> Inl ValueError
      | m # rest \<Rightarrow>
          if \<exists>a \<in> set rest. ncols a \<noteq> ncols m then Inl ValueError
          else Inr \<lparr>nrows = sum_list (map nrows ms), ncols = ncols m,
                     elems = concat (map elems ms)\<rparr>)"

definition np_scale :: "real \<Rightarrow> ndarray \<Rightarrow> ndarray" where
  "np_scale c a = a\<lparr>elems := map (\<lambda>x. c * x) (elems a)\<rparr>"

definition list_mean :: "real list \<Rightarrow> real" where
  "list_mean xs = sum_list xs / real (length xs)"

definition np_mean :: "ndarray \<Rightarrow> real" where
  "np_mean a = list_mean (elems a)"

definition list_std :: "real list \<Rightarrow> real" where
  \<comment> \<open>The population standard deviation, as \<open>np.std\<close> computes by default.\<close>
  "list_std xs = sqrt (list_mean (map (\<lambda>x. (x - list_mean xs)\<^sup>2) xs))"

definition np_std :: "ndarray \<Rightarrow> real" where
  "np_std a = list_std (elems a)"

definition np_rows :: "ndarray \<Rightarrow> int \<Rightarrow> int \<Rightarrow> ndarray" where
  \<comment> \<open>\<open>a[lo:hi]\<close>: a range of rows.\<close>
  "np_rows a lo hi =
     (let n = int (nrows a); l = py_index n lo; h = py_index n hi
      in \<lparr>nrows = h - l, ncols = ncols a,
          elems = take ((h - l) * ncols a) (drop (l * ncols a) (elems a))\<rparr>)"

definition np_rows_from :: "ndarray \<Rightarrow> int \<Rightarrow> ndarray" where
  \<comment> \<open>\<open>a[lo:]\<close>.\<close>
  "np_rows_from a lo =
     (let l = py_index (int (nrows a)) lo
      in \<lparr>nrows = nrows a - l, ncols = ncols a, elems = drop (l * ncols a) (elems a)\<rparr>)"

definition np_column :: "ndarray \<Rightarrow> nat \<Rightarrow> real list" where
  \<comment> \<open>\<open>a[:, i:i+1]\<close> for \<open>i < ncols a\<close>, flattened.\<close>
  "np_column a i = map (\<lambda>r. elems a ! (r * ncols a + i)) [0..<nrows a]"

subsection \<open>Configuration, episode results\<close>

text \<open>
  The constructor arguments that the training methods read. \<open>batch_size\<close>,
  \<open>baseline_type\<close> and \<open>optimizer_class\<close> are stored as given, unvalidated.
\<close>

record config =
  optimizer_class :: string
  actor_net_lr :: real
  critic_net_lr :: real
  reward_scale :: real
  max_grad_norm :: real
  batch_size :: int
  baseline_type :: string
  critic_beta :: real
  lr_decay :: bool
  lr_decay_step :: nat
  lr_decay_rate :: real
  normalize :: bool
  normalize_reward :: bool

record low_dataset =
  ds_state :: "ndarray list"
  ds_action :: "int list list"
  ds_sel_cuts_num :: "int list"
  ds_neg_reward :: "real list"

record high_dataset =
  hs_state :: "ndarray list"
  hs_action :: "real list"
  hs_neg_reward :: "real list"

text \<open>
  One element of \<open>raw_results\<close>: the tuple \<open>(episode_info, low_level_dataset[,
  high_level_dataset])\<close>. \<open>res_high = None\<close> is a tuple with two elements only.
\<close>

record raw_result =
  res_info :: "(string \<times> real list) list"
  res_low :: low_dataset
  res_high :: "high_dataset option"

subsection \<open>Tensors that carry gradients\<close>

text \<open>
  A scalar torch tensor together with what \<open>backward\<close> would accumulate from it: its
  derivative with respect to the parameters of the policy being trained and with respect
  to the parameters of the value network. \<open>requires_grad\<close> is torch's flag; a tensor
  built from constants does not require gradients, and \<open>detach\<close> cuts a tensor from
  the graph.
\<close>

record 'g tensor =
  item :: real
  requires_grad :: bool
  d_policy :: 'g
  d_value :: 'g

definition t_const :: "real \<Rightarrow> ('g::real_vector) tensor" where
  "t_const r = \<lparr>item = r, requires_grad = False, d_policy = 0, d_value = 0\<rparr>"

definition detach :: "('g::real_vector) tensor \<Rightarrow> 'g tensor" where
  "detach t = \<lparr>item = item t, requires_grad = False, d_policy = 0, d_value = 0\<rparr>"

definition t_sub :: "('g::real_vector) tensor \<Rightarrow> 'g tensor \<Rightarrow> 'g tensor" where
  "t_sub a b =
     \<lparr>item = item a - item b,
      requires_grad = (requires_grad a \<or> requires_grad b),
      d_policy = d_policy a - d_policy b,
      d_value = d_value a - d_value b\<rparr>"

definition t_mul :: "('g::real_vector) tensor \<Rightarrow> 'g tensor \<Rightarrow> 'g tensor" where
  "t_mul a b =
     \<lparr>item = item a * item b,
      requires_grad = (requires_grad a \<or> requires_grad b),
      d_policy = item a *\<^sub>R d_policy b + item b *\<^sub>R d_policy a,
      d_value = item a *\<^sub>R d_value b + item b *\<^sub>R d_value a\<rparr>"

definition t_mean :: "('g::real_vector) tensor list \<Rightarrow> 'g tensor" where
  "t_mean ts =
     \<lparr>item = list_mean (map item ts),
      requires_grad = list_ex requires_grad ts,
      d_policy = (1 / real (length ts)) *\<^sub>R sum_list (map d_policy ts),
      d_value = (1 / real (length ts)) *\<^sub>R sum_list (map d_value ts)\<rparr>"

definition broadcast2 :: "('a \<Rightarrow> 'b \<Rightarrow> 'c) \<Rightarrow> 'a list \<Rightarrow> 'b list \<Rightarrow> error + 'c list" where
  \<comment> \<open>An elementwise operation on two column tensors: equal lengths, or one of length one.\<close>
  "broadcast2 f xs ys =
     (if length xs = length ys then Inr (map2 f xs ys)
      else if length xs = 1 then Inr (map (f (hd xs)) ys)
      else if length ys = 1 then Inr (map (\<lambda>x. f x (hd ys)) xs)
      else Inl RuntimeError)"

definition from_numpy :: "ndarray \<Rightarrow> ('g::real_vector) tensor list" where
  \<comment> \<open>\<open>torch.from_numpy\<close> of a column vector: constants.\<close>
  "from_numpy a = map t_const (elems a)"

definition mse_loss :: "('g::real_vector) tensor list \<Rightarrow> 'g tensor list \<Rightarrow> error + 'g tensor" where
  \<comment> \<open>\<open>torch.nn.MSELoss()\<close>: the mean of the squared differences.\<close>
  "mse_loss input target =
     (case broadcast2 t_sub input target of
        Inl e \<Rightarrow> Inl e
      | Inr ds \<Rightarrow> Inr (t_mean (map (\<lambda>d. t_mul d d) ds)))"

definition clip_grad_norm :: "real \<Rightarrow> ('g::real_normed_vector) \<Rightarrow> 'g" where
  \<comment> \<open>\<open>torch.nn.utils.clip_grad_norm(params, max_norm, norm_type=2)\<close> on the gradient
      that \<open>backward\<close> left in the parameters.\<close>
  "clip_grad_norm max_norm g =
     (let clip_coef = max_norm / (norm g + 1 / 1000000)
      in if clip_coef < 1 then clip_coef *\<^sub>R g else g)"

definition step_lr :: "real \<Rightarrow> nat \<Rightarrow> real \<Rightarrow> nat \<Rightarrow> real" where
  \<comment> \<open>The learning rate that \<open>lr_scheduler.StepLR(optimizer, step_size, gamma)\<close> has
      set after \<open>k\<close> calls of its \<open>step\<close>.\<close>
  "step_lr base step_size gamma k = base * gamma ^ (k div step_size)"

subsection \<open>Collaborators\<close>

text \<open>
  The running normaliser's attributes read by this module. Its \<open>update\<close> lives in
  another module and is a parameter below.
\<close>

record running_mean_std =
  rms_mean :: "real list"
  rms_std :: "real list"
  rms_epsilon :: real

text \<open>
  The networks, the optimizer class and the helpers of other modules. \<open>'w\<close> is a
  network's weights together with its optimizer's state, \<open>'g\<close> a gradient.
  \<^item> \<open>pn_logprobs w state sel_cuts_num action\<close> is \<open>pointer_net.logprobs\<close> under
    weights \<open>w\<close>: the per-position distributions, the summed log-probability and its
    gradient; it may raise.
  \<^item> \<open>vn_forward w state\<close> is \<open>value_net(state).squeeze()\<close> with its gradient.
  \<^item> \<open>hp_log_prob w state action\<close> is \<open>cutsel_percent_policy.log_prob\<close>: the
    log-probability, its gradient and the info mapping.
  \<^item> \<open>optim_step lr g w\<close> is one \<open>optimizer.step()\<close> at learning rate \<open>lr\<close> on
    gradient \<open>g\<close>.
  \<^item> \<open>rms_update\<close> is \<open>RunningMeanStd.update\<close>.
  \<^item> \<open>stats_dict\<close> is \<open>create_stats_ordered_dict\<close>.
\<close>

record ('w, 'g) models =
  pn_logprobs :: "'w \<Rightarrow> ndarray \<Rightarrow> int \<Rightarrow> int list \<Rightarrow> error + (real list list \<times> real \<times> 'g)"
  vn_forward :: "'w \<Rightarrow> ndarray \<Rightarrow> real \<times> 'g"
  hp_log_prob :: "'w \<Rightarrow> ndarray \<Rightarrow> real \<Rightarrow> error + (real \<times> 'g \<times> (string \<times> real) list)"
  optim_step :: "real \<Rightarrow> 'g \<Rightarrow> 'w \<Rightarrow> 'w"
  rms_update :: "ndarray \<Rightarrow> running_mean_std \<Rightarrow> error + running_mean_std"
  stats_dict :: "string \<Rightarrow> real list \<Rightarrow> (string \<times> real) list"
  known_optimizers :: "string list"

subsection \<open>The trace of effects\<close>

datatype log_msg =
    Msg_training int int
  | Msg_warning_drop
  | Msg_normalizing
  | Msg_policy_lr int real
  | Msg_training_highlevel int nat int
  | Msg_warning_highlevel_drop
  | Msg_highlevel_lr int real

datatype 'w blob = Weights 'w | Vector "real list" | Scalar real

text \<open>
  \<open>Log\<close>, \<open>Record_dict\<close>, \<open>Record_tabular\<close> and \<open>Add_histogram\<close> are the calls on
  the logger (\<open>Record_dict\<close> carries the label and the data handed to
  \<open>create_stats_ordered_dict\<close>, \<open>Record_feature\<close> the same for a label that
  carries a feature number, \<open>Record_dicts\<close> one \<open>record_dict\<close> of several
  merged statistics); \<open>Save_itr_params\<close> is the checkpoint write;
  \<open>Policy_step\<close> and \<open>Value_step\<close> are the \<open>step()\<close> of the two optimizers, with
  the clipped gradient they apply; \<open>Scheduler_step\<close> is the scheduler's. The debug
  prints and the log lines that report accelerator memory are left out.
\<close>

datatype ('w, 'g) event =
    Log log_msg
  | Record_dict string "real list"
  | Record_tabular string real
  | Record_dicts "(string \<times> real list) list"
  | Record_feature string nat "real list"
  | Add_histogram string "real list"
  | Add_position_histogram nat "real list"
  | Policy_step 'g
  | Value_step 'g
  | Scheduler_step
  | Save_itr_params int "(string \<times> 'w blob) list"

subsection \<open>The trainer object\<close>

text \<open>
  \<open>critic_exp_mvg_avg\<close>, the scheduler and \<open>mean_std\<close> are attributes that the
  constructor sets only under some configurations: \<open>None\<close> is an attribute that does
  not exist. \<open>policy_sched\<close> counts the scheduler's steps.
\<close>

record ('w, 'g) trainer =
  cfg :: config
  pointer_net :: 'w
  value_net :: 'w
  critic_exp_mvg_avg :: "real option"
  policy_sched :: "nat option"
  mean_std :: "running_mean_std option"
  trace :: "('w, 'g) event list"

definition emit :: "('w, 'g) event list \<Rightarrow> ('w, 'g, 'z) trainer_scheme \<Rightarrow> ('w, 'g, 'z) trainer_scheme" where
  "emit es st = st\<lparr>trace := trace st @ es\<rparr>"

definition init ::
  "('w, 'g) models \<Rightarrow> config \<Rightarrow> 'w \<Rightarrow> 'w \<Rightarrow> running_mean_std \<Rightarrow> error + ('w, 'g) trainer" where
  \<comment> \<open>\<open>ReinforceBaselineAlg.__init__\<close>. \<open>eval('optim.' + optimizer_class)\<close> raises for a
      name that \<open>torch.optim\<close> does not have; \<open>baseline_type\<close> is stored as it is.
      \<open>rms0\<close> is a fresh \<open>RunningMeanStd(feature_shape)\<close>.\<close>
  "init md c pn vn rms0 =
     (if optimizer_class c \<notin> set (known_optimizers md) then Inl AttributeError
      else Inr \<lparr>cfg = c, pointer_net = pn, value_net = vn,
                 critic_exp_mvg_avg = (if baseline_type c = ''net'' then None
                                       else if baseline_type c = ''simple'' then Some 0
                                       else None),
                 policy_sched = (if lr_decay c then Some 0 else None),
                 mean_std = (if normalize c then Some rms0 else None),
                 trace = []\<rparr>)"

subsection \<open>Aggregation: \<open>_process_data\<close>\<close>

record training_batch =
  tb_neg_rewards :: ndarray
  tb_states :: "ndarray list"
  tb_actions :: "int list list"
  tb_sel_cuts_nums :: "int list"
  tb_step_infos :: "(string \<times> real list) list"

fun dict_extend ::
  "(string \<times> real list) list \<Rightarrow> string \<Rightarrow> real list \<Rightarrow> error + (string \<times> real list) list" where
  \<comment> \<open>\<open>d[k].extend(vs)\<close>.\<close>
  "dict_extend [] k vs = Inl KeyError"
| "dict_extend ((k', ws) # d) k vs =
     (if k' = k then Inr ((k', ws @ vs) # d)
      else case dict_extend d k vs of
             Inl e \<Rightarrow> Inl e
           | Inr d' \<Rightarrow> Inr ((k', ws) # d'))"

fun extend_info ::
  "(string \<times> real list) list \<Rightarrow> (string \<times> real list) list \<Rightarrow> error + (string \<times> real list) list" where
  \<comment> \<open>\<open>for k in step_info.keys(): new_step_infos[k].extend(step_info[k])\<close>.\<close>
  "extend_info d [] = Inr d"
| "extend_info d ((k, vs) # rest) =
     (case dict_extend d k vs of
        Inl e \<Rightarrow> Inl e
      | Inr d' \<Rightarrow> extend_info d' rest)"

fun extend_infos ::
  "(string \<times> real list) list \<Rightarrow> (string \<times> real list) list list \<Rightarrow> error + (string \<times> real list) list" where
  "extend_infos d [] = Inr d"
| "extend_infos d (info # infos) =
     (case extend_info d info of
        Inl e \<Rightarrow> Inl e
      | Inr d' \<Rightarrow> extend_infos d' infos)"

definition merge_step_infos ::
  "(string \<times> real list) list list \<Rightarrow> error + (string \<times> real list) list" where
  "merge_step_infos infos =
     (case infos of
        [] \<Rightarrow> Inl IndexError
      | first # _ \<Rightarrow> extend_infos (map (\<lambda>(k, _). (k, [])) first) infos)"

definition process_rewards ::
  "real list \<Rightarrow> ('w, 'g, 'z) trainer_scheme \<Rightarrow> ('w, 'g, 'z) trainer_scheme \<times> (error + ndarray)" where
  \<comment> \<open>The reward part of \<open>_process_data\<close>: stack, scale, and normalise when enabled.\<close>
  "process_rewards rs st =
     (case np_vstack_scalars rs of
        Inl e \<Rightarrow> (st, Inl e)
      | Inr stacked \<Rightarrow>
          let neg_rewards = np_scale (reward_scale (cfg st)) stacked
          in if normalize_reward (cfg st) then
               let st1 = emit [Record_dict ''training/Nonnormalize Neg Reward''
                                 (elems neg_rewards)] st;
                   neg_rewards_mean = np_mean neg_rewards;
                   neg_rewards_std = np_std neg_rewards
               in (st1, Inr (neg_rewards\<lparr>elems :=
                         map (\<lambda>x. (x - neg_rewards_mean) / (neg_rewards_std + 1 / 1000))
                             (elems neg_rewards)\<rparr>))
             else (st, Inr neg_rewards))"

definition normalize_state :: "running_mean_std \<Rightarrow> ndarray \<Rightarrow> error + ndarray" where
  \<comment> \<open>\<open>_normalize_state\<close>: \<open>(state - mean) / (std + epsilon)\<close>, the vectors applied to
      every row. Shapes that numpy would only match by stretching an axis of length one
      are reported as an error here.\<close>
  "normalize_state ms s =
     (if length (rms_mean ms) = ncols s \<and> length (rms_std ms) = ncols s then
        Inr (s\<lparr>elems :=
               map (\<lambda>(k, x). (x - rms_mean ms ! (k mod ncols s))
                              / (rms_std ms ! (k mod ncols s) + rms_epsilon ms))
                   (enumerate 0 (elems s))\<rparr>)
      else Inl ValueError)"

fun map_err :: "('a \<Rightarrow> error + 'b) \<Rightarrow> 'a list \<Rightarrow> error + 'b list" where
  \<comment> \<open>A list comprehension whose body may raise.\<close>
  "map_err f [] = Inr []"
| "map_err f (x # xs) =
     (case f x of
        Inl e \<Rightarrow> Inl e
      | Inr y \<Rightarrow> (case map_err f xs of Inl e \<Rightarrow> Inl e | Inr ys \<Rightarrow> Inr (y # ys)))"

definition process_states ::
  "('w, 'g) models \<Rightarrow> ndarray list \<Rightarrow> ('w, 'g, 'z) trainer_scheme
     \<Rightarrow> ('w, 'g, 'z) trainer_scheme \<times> (error + ndarray list)" where
  \<comment> \<open>The feature part of \<open>_process_data\<close>: with \<open>normalize\<close>, update the normaliser,
      log the raw features, normalise every state.\<close>
  "process_states md states st =
     (if normalize (cfg st) then
        let st1 = emit [Log Msg_normalizing] st
        in case np_vstack states of
             Inl e \<Rightarrow> (st1, Inl e)
           | Inr stack_states \<Rightarrow>
               (case mean_std st1 of
                  None \<Rightarrow> (st1, Inl AttributeError)
                | Some ms \<Rightarrow>
                    (case rms_update md stack_states ms of
                       Inl e \<Rightarrow> (st1, Inl e)
                     | Inr ms' \<Rightarrow>
                         let st2 = emit (map (\<lambda>i. Record_feature ''non-normalize'' (i + 1)
                                                     (np_column stack_states i))
                                             [0..<ncols stack_states])
                                        (st1\<lparr>mean_std := Some ms'\<rparr>)
                         in (st2, map_err (normalize_state ms') states)))
      else (st, Inr states))"

definition process_data ::
  "('w, 'g) models \<Rightarrow> raw_result list \<Rightarrow> ('w, 'g, 'z) trainer_scheme
     \<Rightarrow> ('w, 'g, 'z) trainer_scheme \<times> (error + training_batch)" where
  "process_data md raw_results st =
     (let env_step_infos = map res_info raw_results;
          training_datasets = map res_low raw_results;
          states = concat (map ds_state training_datasets);
          actions = concat (map ds_action training_datasets);
          sel_cuts_nums = concat (map ds_sel_cuts_num training_datasets);
          neg_rewards = concat (map ds_neg_reward training_datasets)
      in case process_rewards neg_rewards st of
           (st1, Inl e) \<Rightarrow> (st1, Inl e)
         | (st1, Inr neg_rewards') \<Rightarrow>
             (case merge_step_infos env_step_infos of
                Inl e \<Rightarrow> (st1, Inl e)
              | Inr new_step_infos \<Rightarrow>
                  (case process_states md states st1 of
                     (st2, Inl e) \<Rightarrow> (st2, Inl e)
                   | (st2, Inr states') \<Rightarrow>
                       (st2, Inr \<lparr>tb_neg_rewards = neg_rewards', tb_states = states',
                                  tb_actions = actions, tb_sel_cuts_nums = sel_cuts_nums,
                                  tb_step_infos = new_step_infos\<rparr>))))"

subsection \<open>Mini-batches of \<open>train\<close>\<close>

definition compute_train_loop :: "nat \<Rightarrow> int \<Rightarrow> error + int" where
  \<comment> \<open>The number of mini-batch loops for \<open>total_num_samples\<close> and \<open>self.batch_size\<close>.
      The test \<open>total % batch_size == 0\<close> raises for a batch size of zero.\<close>
  "compute_train_loop total_num_samples bs =
     (if int total_num_samples < bs then Inr 1
      else if bs = 0 then Inl ZeroDivisionError
      else if int total_num_samples mod bs = 0 then
        Inr (int_of_quotient (int total_num_samples) bs)
      else Inr (int_of_quotient (int total_num_samples) bs + 1))"

definition loop_batch_size :: "'a list \<Rightarrow> int \<Rightarrow> int \<Rightarrow> int \<Rightarrow> int" where
  \<comment> \<open>The local \<open>batch_size\<close> of loop \<open>i\<close>.\<close>
  "loop_batch_size states bs train_loop i =
     (if i = train_loop - 1 then int (length (py_slice_from states (i * bs))) else bs)"


subsection \<open>The constructor's defaults\<close>

definition default_config :: config where
  \<comment> \<open>The default values of the keyword arguments of \<open>ReinforceBaselineAlg.__init__\<close>.\<close>
  "default_config =
     \<lparr>optimizer_class = ''Adam'', actor_net_lr = 1 / 10000, critic_net_lr = 1 / 10000,
      reward_scale = 1, max_grad_norm = 2, batch_size = 32,
      baseline_type = ''no_baseline'', critic_beta = 9 / 10, lr_decay = False,
      lr_decay_step = 5, lr_decay_rate = 96 / 100, normalize = False,
      normalize_reward = True\<rparr>"

subsection \<open>A concrete instance for running examples\<close>

text \<open>
  Collaborators on which the functions of this theory can be evaluated: a policy whose
  log-probability is \<open>w\<close> times the sum of the state's entries, a value network that
  returns its weight, plain gradient descent as the optimizer, a normaliser whose
  \<open>update\<close> keeps its statistics and a statistics helper that reports the mean.
\<close>

definition toy_models :: "(real, real) models" where
  "toy_models =
     \<lparr>pn_logprobs = (\<lambda>w s k a. Inr ([[1 / 2, 1 / 2]], w * sum_list (elems s), sum_list (elems s))),
      vn_forward = (\<lambda>w s. (w, 1)),
      hp_log_prob = (\<lambda>w s a. Inr (w * sum_list (elems s), sum_list (elems s), [(''info'', a)])),
      optim_step = (\<lambda>lr g w. w - lr * g),
      rms_update = (\<lambda>m ms. Inr ms),
      stats_dict = (\<lambda>name xs. [(name @ '' Mean'', list_mean xs)]),
      known_optimizers = [''Adam'', ''SGD'', ''RMSprop'']\<rparr>"

definition toy_state :: "real \<Rightarrow> ndarray" where
  \<comment> \<open>A state with one cut and one feature.\<close>
  "toy_state x = \<lparr>nrows = 1, ncols = 1, elems = [x]\<rparr>"

definition toy_trainer :: "config \<Rightarrow> (real, real) trainer" where
  \<comment> \<open>What \<open>init\<close> builds from weights \<open>1\<close> for both networks.\<close>
  "toy_trainer c =
     \<lparr>cfg = c, pointer_net = 1, value_net = 1,
      critic_exp_mvg_avg = (if baseline_type c = ''net'' then None
                            else if baseline_type c = ''simple'' then Some 0
                            else None),
      policy_sched = (if lr_decay c then Some 0 else None),
      mean_std = (if normalize c
                  then Some \<lparr>rms_mean = [0], rms_std = [1], rms_epsilon = 1 / 10000\<rparr>
                  else None),
      trace = []\<rparr>"

definition toy_episode :: "real list \<Rightarrow> raw_result" where
  \<comment> \<open>An episode with one sample per reward; every action list has two entries while
      the selection count is \<open>5\<close>.\<close>
  "toy_episode rs =
     \<lparr>res_info = [(''solving_time'', [1])],
      res_low = \<lparr>ds_state = map toy_state rs, ds_action = map (\<lambda>_. [0, 1]) rs,
                 ds_sel_cuts_num = map (\<lambda>_. 5) rs, ds_neg_reward = rs\<rparr>,
      res_high = Some \<lparr>hs_state = map toy_state rs, hs_action = map (\<lambda>_. 1 / 2) rs,
                       hs_neg_reward = rs\<rparr>\<rparr>"

subsection \<open>Sequencing statements that may raise\<close>

definition then_do ::
  "'s \<times> (error + 'a) \<Rightarrow> ('a \<Rightarrow> 's \<Rightarrow> 's \<times> (error + 'b)) \<Rightarrow> 's \<times> (error + 'b)" where
  \<comment> \<open>Run the rest of a method on the state the first part left, unless that part raised.\<close>
  "then_do m f = (case m of (s, Inl e) \<Rightarrow> (s, Inl e) | (s, Inr x) \<Rightarrow> f x s)"

definition lift :: "error + 'a \<Rightarrow> 's \<Rightarrow> 's \<times> (error + 'a)" where
  \<comment> \<open>A computation without effect on the object.\<close>
  "lift r s = (s, r)"

subsection \<open>The policy update of \<open>train\<close>\<close>

definition update_baseline ::
  "int \<Rightarrow> ndarray \<Rightarrow> ('w, 'g, 'z) trainer_scheme
     \<Rightarrow> ('w, 'g, 'z) trainer_scheme \<times> (error + unit)" where
  \<comment> \<open>The update of the moving average before the mini-batch loop.\<close>
  "update_baseline epoch neg_rewards st =
     (if baseline_type (cfg st) = ''simple'' then
        if epoch = 1 then (st\<lparr>critic_exp_mvg_avg := Some (np_mean neg_rewards)\<rparr>, Inr ())
        else (case critic_exp_mvg_avg st of
                None \<Rightarrow> (st, Inl AttributeError)
              | Some ema \<Rightarrow>
                  (st\<lparr>critic_exp_mvg_avg :=
                        Some (ema * critic_beta (cfg st)
                              + (1 - critic_beta (cfg st)) * np_mean neg_rewards)\<rparr>,
                   Inr ()))
      else (st, Inr ()))"

definition store_logprob ::
  "('g::real_vector) tensor \<Rightarrow> ('w, 'g, 'z) trainer_scheme
     \<Rightarrow> ('w, 'g, 'z) trainer_scheme \<times> 'g tensor" where
  \<comment> \<open>What is written into \<open>logprobs[j,:]\<close>.\<close>
  "store_logprob logprob st =
     (if item logprob < - 4000 then (emit [Log Msg_warning_drop] st, detach logprob)
      else (st, logprob))"

record 'g sample_acc =
  sa_logprobs :: "'g tensor list"
  sa_values :: "'g tensor list"
  sa_probs :: "real list list option"

definition net_output :: "real \<Rightarrow> 'g \<Rightarrow> ('g::real_vector) tensor" where
  \<comment> \<open>The pointer network's summed log-probability: a node of the policy's graph.\<close>
  "net_output v g = \<lparr>item = v, requires_grad = True, d_policy = g, d_value = 0\<rparr>"

definition value_output :: "real \<times> 'g \<Rightarrow> ('g::real_vector) tensor" where
  \<comment> \<open>The value network's estimate: a node of the critic's graph.\<close>
  "value_output p = \<lparr>item = fst p, requires_grad = True, d_policy = 0, d_value = snd p\<rparr>"

definition train_sample ::
  "('w, 'g::real_vector) models \<Rightarrow> training_batch \<Rightarrow> int \<Rightarrow> nat \<Rightarrow> 'g sample_acc
     \<Rightarrow> ('w, 'g, 'z) trainer_scheme \<Rightarrow> ('w, 'g, 'z) trainer_scheme \<times> (error + 'g sample_acc)" where
  \<comment> \<open>The body of \<open>for j in range(batch_size)\<close> in loop \<open>i\<close>.\<close>
  "train_sample md tb i j acc st =
     (let cur_index = i * batch_size (cfg st) + int j
      in case py_getitem (tb_states tb) cur_index of
           Inl e \<Rightarrow> (st, Inl e)
         | Inr state \<Rightarrow>
        (case py_getitem (tb_actions tb) cur_index of
           Inl e \<Rightarrow> (st, Inl e)
         | Inr action \<Rightarrow>
        (case py_getitem (tb_sel_cuts_nums tb) cur_index of
           Inl e \<Rightarrow> (st, Inl e)
         | Inr sel_cuts_num \<Rightarrow>
        (case pn_logprobs md (pointer_net st) state sel_cuts_num action of
           Inl e \<Rightarrow> (st, Inl e)
         | Inr (pointer_probs, lp, g) \<Rightarrow>
             let (st1, stored) = store_logprob (net_output lp g) st;
                 values = (if baseline_type (cfg st) = ''net''
                           then sa_values acc @ [value_output (vn_forward md (value_net st) state)]
                           else sa_values acc);
                 st2 = (if i = 0 \<and> j = 0
                        then emit (Add_histogram ''selected_idxes'' (map real_of_int action)
                                   # map (\<lambda>(pos, d). Add_position_histogram pos d)
                                         (enumerate 0 pointer_probs)) st1
                        else st1)
             in (st2, Inr \<lparr>sa_logprobs = sa_logprobs acc @ [stored], sa_values = values,
                            sa_probs = Some pointer_probs\<rparr>)))))"

fun train_samples ::
  "('w, 'g::real_vector) models \<Rightarrow> training_batch \<Rightarrow> int \<Rightarrow> nat list \<Rightarrow> 'g sample_acc
     \<Rightarrow> ('w, 'g, 'z) trainer_scheme \<Rightarrow> ('w, 'g, 'z) trainer_scheme \<times> (error + 'g sample_acc)" where
  "train_samples md tb i [] acc st = (st, Inr acc)"
| "train_samples md tb i (j # js) acc st =
     (case train_sample md tb i j acc st of
        (st1, Inl e) \<Rightarrow> (st1, Inl e)
      | (st1, Inr acc1) \<Rightarrow> train_samples md tb i js acc1 st1)"

definition compute_sm_entropy :: "real list \<Rightarrow> real" where
  \<comment> \<open>\<open>_compute_sm_entropy\<close>: \<open>entropy -= prob * log(prob)\<close> over the distribution.\<close>
  "compute_sm_entropy probs = - sum_list (map (\<lambda>p. p * ln p) probs)"

definition neg_advantage_of ::
  "('w, 'g::real_vector, 'z) trainer_scheme \<Rightarrow> 'g tensor list \<Rightarrow> 'g tensor list
     \<Rightarrow> error + 'g tensor list" where
  \<comment> \<open>The \<open>if\<close>/\<open>elif\<close> chain on \<open>baseline_type\<close>; with no branch taken the name
      \<open>neg_advantage\<close> is unbound where the loss reads it.\<close>
  "neg_advantage_of st minibatch_neg_rewards neg_baseline_value =
     (if baseline_type (cfg st) = ''simple'' then
        (case critic_exp_mvg_avg st of
           None \<Rightarrow> Inl AttributeError
         | Some ema \<Rightarrow> Inr (map (\<lambda>r. t_sub r (t_const ema)) minibatch_neg_rewards))
      else if baseline_type (cfg st) = ''no_baseline'' then Inr minibatch_neg_rewards
      else if baseline_type (cfg st) = ''net'' then
        broadcast2 t_sub minibatch_neg_rewards (map detach neg_baseline_value)
      else Inl UnboundLocalError)"

definition reinforce_loss_of ::
  "('g::real_vector) tensor list \<Rightarrow> 'g tensor list \<Rightarrow> error + 'g tensor" where
  \<comment> \<open>\<open>(neg_advantage * logprobs).mean()\<close>.\<close>
  "reinforce_loss_of neg_advantage logprobs =
     (case broadcast2 t_mul neg_advantage logprobs of
        Inl e \<Rightarrow> Inl e
      | Inr prods \<Rightarrow> Inr (t_mean prods))"

definition policy_lr :: "('w, 'g, 'z) trainer_scheme \<Rightarrow> real" where
  "policy_lr st =
     step_lr (actor_net_lr (cfg st)) (lr_decay_step (cfg st)) (lr_decay_rate (cfg st))
       (case policy_sched st of None \<Rightarrow> 0 | Some k \<Rightarrow> k)"

definition policy_update ::
  "('w, 'g::real_normed_vector) models \<Rightarrow> 'g tensor \<Rightarrow> ('w, 'g, 'z) trainer_scheme
     \<Rightarrow> ('w, 'g, 'z) trainer_scheme \<times> (error + unit)" where
  \<comment> \<open>\<open>zero_grad\<close>, \<open>reinforce_loss.backward()\<close>, the clip of the pointer network's
      gradient, \<open>policy_optimizer.step()\<close>. \<open>backward\<close> raises on a loss that no
      parameter reaches.\<close>
  "policy_update md reinforce_loss st =
     (if \<not> requires_grad reinforce_loss then (st, Inl RuntimeError)
      else let g = clip_grad_norm (max_grad_norm (cfg st)) (d_policy reinforce_loss)
           in (emit [Policy_step g]
                 (st\<lparr>pointer_net := optim_step md (policy_lr st) g (pointer_net st)\<rparr>),
               Inr ()))"

definition critic_update ::
  "('w, 'g::real_normed_vector) models \<Rightarrow> 'g tensor list \<Rightarrow> 'g tensor list
     \<Rightarrow> ('w, 'g, 'z) trainer_scheme \<Rightarrow> ('w, 'g, 'z) trainer_scheme \<times> (error + 'g tensor)" where
  \<comment> \<open>The value loss of the \<open>net\<close> baseline: \<open>critic_mse\<close>, \<open>zero_grad\<close>, \<open>backward\<close>,
      the clip of the value network's gradient, \<open>value_optimizer.step()\<close>.\<close>
  "critic_update md neg_baseline_value minibatch_neg_rewards st =
     (case mse_loss neg_baseline_value minibatch_neg_rewards of
        Inl e \<Rightarrow> (st, Inl e)
      | Inr critic_loss \<Rightarrow>
          if \<not> requires_grad critic_loss then (st, Inl RuntimeError)
          else let h = clip_grad_norm (max_grad_norm (cfg st)) (d_value critic_loss)
               in (emit [Value_step h]
                     (st\<lparr>value_net := optim_step md (critic_net_lr (cfg st)) h (value_net st)\<rparr>),
                   Inr critic_loss))"

text \<open>
  The locals of \<open>train\<close> that the statements after the loop read: they keep the values
  of the last mini-batch that ran.
\<close>

record 'g minibatch =
  mb_neg_advantage :: "'g tensor list"
  mb_logprobs :: "'g tensor list"
  mb_reinforce_loss :: "'g tensor"
  mb_critic_loss :: "'g tensor option"
  mb_neg_baseline_value :: "'g tensor list"
  mb_pointer_probs :: "real list list"

definition minibatch_rewards :: "ndarray \<Rightarrow> int \<Rightarrow> int \<Rightarrow> int \<Rightarrow> ndarray" where
  \<comment> \<open>The rows of \<open>neg_rewards\<close> that loop \<open>i\<close> takes.\<close>
  "minibatch_rewards neg_rewards bs train_loop i =
     (if i = train_loop - 1 then np_rows_from neg_rewards (i * bs)
      else np_rows neg_rewards (i * bs) ((i + 1) * bs))"

definition critic_step ::
  "('w, 'g::real_normed_vector) models \<Rightarrow> 'g tensor list \<Rightarrow> 'g tensor list
     \<Rightarrow> ('w, 'g, 'z) trainer_scheme
     \<Rightarrow> ('w, 'g, 'z) trainer_scheme \<times> (error + 'g tensor option)" where
  \<comment> \<open>\<open>if self.baseline_type == 'net':\<close> after the policy step.\<close>
  "critic_step md neg_baseline_value minibatch_neg_rewards st =
     (if baseline_type (cfg st) = ''net'' then
        then_do (critic_update md neg_baseline_value minibatch_neg_rewards st)
          (\<lambda>critic_loss st1. (st1, Inr (Some critic_loss)))
      else (st, Inr None))"

definition minibatch_step ::
  "('w, 'g::real_normed_vector) models \<Rightarrow> 'g tensor list \<Rightarrow> 'g sample_acc \<Rightarrow> real list list
     \<Rightarrow> ('w, 'g, 'z) trainer_scheme
     \<Rightarrow> ('w, 'g, 'z) trainer_scheme \<times> (error + 'g minibatch)" where
  \<comment> \<open>The statements of a mini-batch after the rewards are sliced: advantage, loss,
      policy step, and the critic's step under the \<open>net\<close> baseline.\<close>
  "minibatch_step md minibatch_neg_rewards acc pointer_probs st =
     then_do (lift (neg_advantage_of st minibatch_neg_rewards (sa_values acc)) st)
       (\<lambda>neg_advantage st1.
          then_do (lift (reinforce_loss_of neg_advantage (sa_logprobs acc)) st1)
            (\<lambda>reinforce_loss st2.
               then_do (policy_update md reinforce_loss st2)
                 (\<lambda>_ st3.
                    then_do (critic_step md (sa_values acc) minibatch_neg_rewards st3)
                      (\<lambda>critic_loss st4.
                         (st4, Inr \<lparr>mb_neg_advantage = neg_advantage,
                                    mb_logprobs = sa_logprobs acc,
                                    mb_reinforce_loss = reinforce_loss,
                                    mb_critic_loss = critic_loss,
                                    mb_neg_baseline_value = sa_values acc,
                                    mb_pointer_probs = pointer_probs\<rparr>)))))"

definition log_entropy ::
  "'g sample_acc \<Rightarrow> ('w, 'g, 'z) trainer_scheme
     \<Rightarrow> ('w, 'g, 'z) trainer_scheme \<times> (error + real list list)" where
  \<comment> \<open>\<open>pos_1_entropy = self._compute_sm_entropy(pointer_probs[0])\<close> and its record;
      \<open>pointer_probs\<close> is unbound when no sample ran yet.\<close>
  "log_entropy acc st =
     (case sa_probs acc of
        None \<Rightarrow> (st, Inl UnboundLocalError)
      | Some [] \<Rightarrow> (st, Inl IndexError)
      | Some (p0 # ps) \<Rightarrow>
          (emit [Record_tabular ''pos_1_entropy'' (compute_sm_entropy p0)] st, Inr (p0 # ps)))"

definition train_minibatch ::
  "('w, 'g::real_normed_vector) models \<Rightarrow> training_batch \<Rightarrow> int \<Rightarrow> int \<Rightarrow> int
     \<Rightarrow> 'g minibatch option \<Rightarrow> ('w, 'g, 'z) trainer_scheme
     \<Rightarrow> ('w, 'g, 'z) trainer_scheme \<times> (error + 'g minibatch)" where
  \<comment> \<open>The body of \<open>for i in range(train_loop)\<close>. \<open>torch.zeros\<close> refuses a negative
      size; \<open>pointer_probs\<close> is the one of the last sample seen so far.\<close>
  "train_minibatch md tb epoch train_loop i prev st =
     (let bs = batch_size (cfg st);
          b = loop_batch_size (tb_states tb) bs train_loop i;
          st0 = emit [Log (Msg_training epoch train_loop)] st
      in if b < 0 then (st0, Inl RuntimeError)
         else
           then_do (train_samples md tb i [0..<nat b]
                      \<lparr>sa_logprobs = [], sa_values = [],
                       sa_probs = map_option mb_pointer_probs prev\<rparr> st0)
             (\<lambda>acc st1.
                then_do (log_entropy acc st1)
                  (\<lambda>pointer_probs st2.
                     minibatch_step md
                       (from_numpy (minibatch_rewards (tb_neg_rewards tb) bs train_loop i))
                       acc pointer_probs st2)))"

fun train_loops ::
  "('w, 'g::real_normed_vector) models \<Rightarrow> training_batch \<Rightarrow> int \<Rightarrow> int \<Rightarrow> nat list
     \<Rightarrow> 'g minibatch option \<Rightarrow> ('w, 'g, 'z) trainer_scheme
     \<Rightarrow> ('w, 'g, 'z) trainer_scheme \<times> (error + 'g minibatch option)" where
  "train_loops md tb epoch train_loop [] prev st = (st, Inr prev)"
| "train_loops md tb epoch train_loop (i # is) prev st =
     (case train_minibatch md tb epoch train_loop (int i) prev st of
        (st1, Inl e) \<Rightarrow> (st1, Inl e)
      | (st1, Inr mb) \<Rightarrow> train_loops md tb epoch train_loop is (Some mb) st1)"

subsection \<open>After the loop: scheduler, checkpoint, statistics\<close>

definition lr_update ::
  "int \<Rightarrow> ('w, 'g, 'z) trainer_scheme \<Rightarrow> ('w, 'g, 'z) trainer_scheme \<times> (error + unit)" where
  \<comment> \<open>\<open>policy_lr_scheduler.step()\<close> and the log of the new rate, under \<open>lr_decay\<close>. A
      step size of zero makes the scheduler divide by zero.\<close>
  "lr_update epoch st =
     (if lr_decay (cfg st) then
        (case policy_sched st of
           None \<Rightarrow> (st, Inl AttributeError)
         | Some k \<Rightarrow>
             if lr_decay_step (cfg st) = 0 then (st, Inl ZeroDivisionError)
             else let st1 = emit [Scheduler_step] (st\<lparr>policy_sched := Some (Suc k)\<rparr>)
                  in (emit [Log (Msg_policy_lr epoch (policy_lr st1))] st1, Inr ()))
      else (st, Inr ()))"

definition save_checkpoint ::
  "int \<Rightarrow> ('w, 'g, 'z) trainer_scheme \<Rightarrow> ('w, 'g, 'z) trainer_scheme \<times> (error + unit)" where
  \<comment> \<open>\<open>ReinforceBaselineAlg.save_checkpoint\<close>: the state dictionary handed to
      \<open>logger.save_itr_params\<close>.\<close>
  "save_checkpoint epoch st =
     (if normalize (cfg st) then
        (case mean_std st of
           None \<Rightarrow> (st, Inl AttributeError)
         | Some ms \<Rightarrow>
             (emit [Save_itr_params epoch
                      [(''pointer_net'', Weights (pointer_net st)),
                       (''mean'', Vector (rms_mean ms)),
                       (''std'', Vector (rms_std ms)),
                       (''epsilon'', Scalar (rms_epsilon ms))]] st,
              Inr ()))
      else (emit [Save_itr_params epoch [(''pointer_net'', Weights (pointer_net st))]] st,
            Inr ()))"

fun log_features ::
  "ndarray list \<Rightarrow> nat list \<Rightarrow> ('w, 'g, 'z) trainer_scheme
     \<Rightarrow> ('w, 'g, 'z) trainer_scheme \<times> (error + unit)" where
  \<comment> \<open>\<open>for i in range(feature_len)\<close>: the statistics of column \<open>i\<close> of all states;
      stacking the columns fails when a state has no column \<open>i\<close>.\<close>
  "log_features states [] st = (st, Inr ())"
| "log_features states (i # is) st =
     (if \<exists>s \<in> set states. ncols s \<le> i then (st, Inl ValueError)
      else log_features states is
             (emit [Record_feature ''feature'' (i + 1)
                      (concat (map (\<lambda>s. np_column s i) states))] st))"

definition log_training ::
  "training_batch \<Rightarrow> int \<Rightarrow> ('g::real_vector) minibatch option \<Rightarrow> ('w, 'g, 'z) trainer_scheme
     \<Rightarrow> ('w, 'g, 'z) trainer_scheme \<times> (error + unit)" where
  \<comment> \<open>The statements of \<open>train\<close> after \<open>save_checkpoint\<close>. They read the locals of the
      last mini-batch and \<open>self.critic_exp_mvg_avg\<close>, whatever the baseline.\<close>
  "log_training tb epoch final_mb st =
     (let st1 = emit [Add_histogram ''neg_rewards'' (elems (tb_neg_rewards tb)),
                      Record_tabular ''Epoch'' (real_of_int epoch),
                      Record_dict ''training/Neg Reward'' (elems (tb_neg_rewards tb))] st
      in case final_mb of
           None \<Rightarrow> (st1, Inl UnboundLocalError)
         | Some mb \<Rightarrow>
             let st2 = emit [Record_tabular ''training/Neg Advantage''
                               (list_mean (map item (mb_neg_advantage mb))),
                             Record_dict ''training/logprobs'' (map item (mb_logprobs mb)),
                             Record_tabular ''training/reinforce loss''
                               (item (mb_reinforce_loss mb))] st1
             in case critic_exp_mvg_avg st2 of
                  None \<Rightarrow> (st2, Inl AttributeError)
                | Some ema \<Rightarrow>
                    let st3 = emit [Record_tabular ''training/Critic Value'' ema] st2
                    in then_do
                         (if baseline_type (cfg st3) = ''net'' then
                            (case mb_critic_loss mb of
                               None \<Rightarrow> (st3, Inl UnboundLocalError)
                             | Some critic_loss \<Rightarrow>
                                 (emit [Record_tabular ''training/Critic Loss'' (item critic_loss),
                                        Record_tabular ''training/Critic Value''
                                          (list_mean (map item (mb_neg_baseline_value mb)))] st3,
                                  Inr ()))
                          else (st3, Inr ()))
                         (\<lambda>_ st4.
                            let st5 = emit [Record_dict ''training/len cuts''
                                              (map (real \<circ> nrows) (tb_states tb))] st4
                            in case tb_states tb of
                                 [] \<Rightarrow> (st5, Inl IndexError)
                               | s0 # _ \<Rightarrow>
                                   then_do (log_features (tb_states tb) [0..<ncols s0] st5)
                                     (\<lambda>_ st6.
                                        (emit [Record_dict ''training/sel cuts num''
                                                 (map real_of_int (tb_sel_cuts_nums tb)),
                                               Record_dicts
                                                 (map (\<lambda>(k, vs). (''training/'' @ k, vs))
                                                      (tb_step_infos tb))] st6,
                                         Inr ()))))"

subsection \<open>\<open>ReinforceBaselineAlg.train\<close>\<close>

text \<open>
  \<open>train\<close> calls \<open>self.save_checkpoint\<close>, which the hierarchical trainer overrides:
  the method is a parameter of \<open>train_with\<close>.
\<close>

definition train_with ::
  "(int \<Rightarrow> ('w, 'g, 'z) trainer_scheme \<Rightarrow> ('w, 'g, 'z) trainer_scheme \<times> (error + unit))
     \<Rightarrow> ('w, 'g::real_normed_vector) models \<Rightarrow> raw_result list \<Rightarrow> int
     \<Rightarrow> ('w, 'g, 'z) trainer_scheme \<Rightarrow> ('w, 'g, 'z) trainer_scheme \<times> (error + unit)" where
  "train_with save md raw_results epoch st =
     then_do (process_data md raw_results st)
       (\<lambda>tb st1.
          then_do (lift (compute_train_loop (length (tb_states tb)) (batch_size (cfg st1))) st1)
            (\<lambda>train_loop st2.
               then_do (update_baseline epoch (tb_neg_rewards tb) st2)
                 (\<lambda>_ st3.
                    then_do (train_loops md tb epoch train_loop [0..<nat train_loop] None st3)
                      (\<lambda>final_mb st4.
                         then_do (lr_update epoch st4)
                           (\<lambda>_ st5.
                              then_do (save epoch st5)
                                (\<lambda>_ st6. log_training tb epoch final_mb st6))))))"

definition train ::
  "('w, 'g::real_normed_vector) models \<Rightarrow> raw_result list \<Rightarrow> int \<Rightarrow> ('w, 'g, 'z) trainer_scheme
     \<Rightarrow> ('w, 'g, 'z) trainer_scheme \<times> (error + unit)" where
  \<comment> \<open>\<open>train\<close> on a \<open>ReinforceBaselineAlg\<close>.\<close>
  "train = train_with save_checkpoint"

subsection \<open>The hierarchical trainer\<close>

text \<open>
  \<open>HRLReinforceAlg\<close> extends the trainer with the cut-percentage policy, its scheduler,
  its own epoch counter and moving average, and the buffer of high-level samples.
\<close>

record ('w, 'g) hrl_trainer = "('w, 'g) trainer" +
  cutsel_percent_policy :: 'w
  highlevel_actor_lr :: real
  highlevel_sched :: "nat option"
  train_highlevel_policy_freq :: int
  train_highlevel_batch_size :: int
  train_highlevel_epoch :: int
  training_highlevel_dataset :: high_dataset
  critic_exp_mvg_avg_high_level :: real

definition empty_dataset :: high_dataset where
  \<comment> \<open>\<open>{'states': [], 'actions': [], 'neg_rewards': []}\<close>.\<close>
  "empty_dataset = \<lparr>hs_state = [], hs_action = [], hs_neg_reward = []\<rparr>"

definition hrl_init ::
  "('w, 'g) models \<Rightarrow> config \<Rightarrow> 'w \<Rightarrow> 'w \<Rightarrow> 'w \<Rightarrow> running_mean_std \<Rightarrow> int \<Rightarrow> int \<Rightarrow> real
     \<Rightarrow> error + ('w, 'g) hrl_trainer" where
  \<comment> \<open>\<open>HRLReinforceAlg.__init__\<close>.\<close>
  "hrl_init md c pn vn hp rms0 freq hbs hlr =
     (case init md c pn vn rms0 of
        Inl e \<Rightarrow> Inl e
      | Inr base \<Rightarrow>
          Inr (trainer.extend base
                 (hrl_trainer.fields hp hlr (if lr_decay c then Some 0 else None)
                    freq hbs 1 empty_dataset 0)))"

definition update_highlevel_dataset ::
  "raw_result list \<Rightarrow> ('w, 'g, 'z) hrl_trainer_scheme
     \<Rightarrow> ('w, 'g, 'z) hrl_trainer_scheme \<times> (error + unit)" where
  \<comment> \<open>\<open>_update_highlevel_dataset\<close>: clear the buffer, then extend it with the third
      element of every result; a result of two elements raises once the buffer is clear.\<close>
  "update_highlevel_dataset raw_results st =
     (let st1 = st\<lparr>training_highlevel_dataset := empty_dataset\<rparr>
      in case map_err (\<lambda>r. case res_high r of None \<Rightarrow> Inl IndexError | Some d \<Rightarrow> Inr d)
                raw_results of
           Inl e \<Rightarrow> (st1, Inl e)
         | Inr ds \<Rightarrow>
             (st1\<lparr>training_highlevel_dataset :=
                    \<lparr>hs_state = concat (map hs_state ds),
                     hs_action = concat (map hs_action ds),
                     hs_neg_reward = concat (map hs_neg_reward ds)\<rparr>\<rparr>,
              Inr ()))"

definition highlevel_rewards :: "('w, 'g, 'z) hrl_trainer_scheme \<Rightarrow> error + ndarray" where
  \<comment> \<open>The first statements of \<open>_train_highlevel\<close>: the buffered rewards, stacked and
      multiplied by \<open>reward_scale\<close>.\<close>
  "highlevel_rewards st =
     (case np_vstack_scalars (hs_neg_reward (training_highlevel_dataset st)) of
        Inl e \<Rightarrow> Inl e
      | Inr stacked \<Rightarrow> Inr (stacked\<lparr>elems := map (\<lambda>x. x * reward_scale (cfg st)) (elems stacked)\<rparr>))"

definition update_highlevel_baseline ::
  "ndarray \<Rightarrow> ('w, 'g, 'z) hrl_trainer_scheme \<Rightarrow> ('w, 'g, 'z) hrl_trainer_scheme" where
  "update_highlevel_baseline neg_rewards st =
     (if train_highlevel_epoch st = 1
      then st\<lparr>critic_exp_mvg_avg_high_level := np_mean neg_rewards\<rparr>
      else st\<lparr>critic_exp_mvg_avg_high_level :=
                critic_exp_mvg_avg_high_level st * critic_beta (cfg st)
                + (1 - critic_beta (cfg st)) * np_mean neg_rewards\<rparr>)"

definition store_highlevel_logprob ::
  "('g::real_vector) tensor \<Rightarrow> ('w, 'g, 'z) trainer_scheme
     \<Rightarrow> ('w, 'g, 'z) trainer_scheme \<times> 'g tensor" where
  "store_highlevel_logprob logprob st =
     (if item logprob < - 100000 then (emit [Log Msg_warning_highlevel_drop] st, detach logprob)
      else (st, logprob))"

fun dict_append ::
  "(string \<times> real list) list \<Rightarrow> string \<Rightarrow> real \<Rightarrow> error + (string \<times> real list) list" where
  \<comment> \<open>\<open>infos[k].append(v)\<close>.\<close>
  "dict_append [] k v = Inl KeyError"
| "dict_append ((k', ws) # d) k v =
     (if k' = k then Inr ((k', ws @ [v]) # d)
      else case dict_append d k v of
             Inl e \<Rightarrow> Inl e
           | Inr d' \<Rightarrow> Inr ((k', ws) # d'))"

fun append_info ::
  "(string \<times> real list) list \<Rightarrow> (string \<times> real) list \<Rightarrow> error + (string \<times> real list) list" where
  "append_info d [] = Inr d"
| "append_info d ((k, v) # rest) =
     (case dict_append d k v of
        Inl e \<Rightarrow> Inl e
      | Inr d' \<Rightarrow> append_info d' rest)"

fun dict_set :: "(string \<times> 'v) list \<Rightarrow> string \<Rightarrow> 'v \<Rightarrow> (string \<times> 'v) list" where
  \<comment> \<open>\<open>d[k] = v\<close> on a dictionary in insertion order.\<close>
  "dict_set [] k v = [(k, v)]"
| "dict_set ((k', w) # d) k v = (if k' = k then (k', v) # d else (k', w) # dict_set d k v)"

definition dict_update :: "(string \<times> 'v) list \<Rightarrow> (string \<times> 'v) list \<Rightarrow> (string \<times> 'v) list" where
  \<comment> \<open>\<open>d.update(e)\<close>.\<close>
  "dict_update d e = fold (\<lambda>(k, v) acc. dict_set acc k v) e d"

record 'g hl_acc =
  ha_logprobs :: "'g tensor list"
  ha_infos :: "(string \<times> real list) list"

definition highlevel_sample ::
  "('w, 'g::real_vector) models \<Rightarrow> ndarray list \<Rightarrow> real list \<Rightarrow> int \<Rightarrow> nat \<Rightarrow> 'g hl_acc
     \<Rightarrow> ('w, 'g, 'z) hrl_trainer_scheme
     \<Rightarrow> ('w, 'g, 'z) hrl_trainer_scheme \<times> (error + 'g hl_acc)" where
  \<comment> \<open>The body of the sample loop of \<open>_train_highlevel\<close>.\<close>
  "highlevel_sample md states actions i j acc st =
     (let cur_index = i * train_highlevel_batch_size st + int j
      in case py_getitem states cur_index of
           Inl e \<Rightarrow> (st, Inl e)
         | Inr state \<Rightarrow>
        (case py_getitem actions cur_index of
           Inl e \<Rightarrow> (st, Inl e)
         | Inr action \<Rightarrow>
        (case hp_log_prob md (cutsel_percent_policy st) state action of
           Inl e \<Rightarrow> (st, Inl e)
         | Inr (lp, g, info) \<Rightarrow>
             let (st1, stored) = store_highlevel_logprob (net_output lp g) st;
                 infos0 = (if i = 0 \<and> j = 0
                           then fold (\<lambda>(k, v) d. dict_set d k []) info (ha_infos acc)
                           else ha_infos acc)
             in case append_info infos0 info of
                  Inl e \<Rightarrow> (st1, Inl e)
                | Inr infos1 \<Rightarrow>
                    (st1, Inr \<lparr>ha_logprobs = ha_logprobs acc @ [stored], ha_infos = infos1\<rparr>))))"

fun highlevel_samples ::
  "('w, 'g::real_vector) models \<Rightarrow> ndarray list \<Rightarrow> real list \<Rightarrow> int \<Rightarrow> nat list \<Rightarrow> 'g hl_acc
     \<Rightarrow> ('w, 'g, 'z) hrl_trainer_scheme
     \<Rightarrow> ('w, 'g, 'z) hrl_trainer_scheme \<times> (error + 'g hl_acc)" where
  "highlevel_samples md states actions i [] acc st = (st, Inr acc)"
| "highlevel_samples md states actions i (j # js) acc st =
     (case highlevel_sample md states actions i j acc st of
        (st1, Inl e) \<Rightarrow> (st1, Inl e)
      | (st1, Inr acc1) \<Rightarrow> highlevel_samples md states actions i js acc1 st1)"

definition highlevel_neg_advantage ::
  "('w, 'g::real_vector, 'z) hrl_trainer_scheme \<Rightarrow> 'g tensor list \<Rightarrow> 'g tensor list" where
  "highlevel_neg_advantage st minibatch_neg_rewards =
     (if baseline_type (cfg st) = ''simple''
      then map (\<lambda>r. t_sub r (t_const (critic_exp_mvg_avg_high_level st))) minibatch_neg_rewards
      else minibatch_neg_rewards)"

definition highlevel_lr :: "('w, 'g, 'z) hrl_trainer_scheme \<Rightarrow> real" where
  "highlevel_lr st =
     step_lr (highlevel_actor_lr st) (lr_decay_step (cfg st)) (lr_decay_rate (cfg st))
       (case highlevel_sched st of None \<Rightarrow> 0 | Some k \<Rightarrow> k)"

definition highlevel_update ::
  "('w, 'g::real_normed_vector) models \<Rightarrow> 'g tensor \<Rightarrow> ('w, 'g, 'z) hrl_trainer_scheme
     \<Rightarrow> ('w, 'g, 'z) hrl_trainer_scheme \<times> (error + unit)" where
  "highlevel_update md reinforce_loss st =
     (if \<not> requires_grad reinforce_loss then (st, Inl RuntimeError)
      else let g = clip_grad_norm (max_grad_norm (cfg st)) (d_policy reinforce_loss)
           in (emit [Policy_step g]
                 (st\<lparr>cutsel_percent_policy :=
                       optim_step md (highlevel_lr st) g (cutsel_percent_policy st)\<rparr>),
               Inr ()))"

record 'g hl_minibatch =
  hm_neg_advantage :: "'g tensor list"
  hm_logprobs :: "'g tensor list"
  hm_reinforce_loss :: "'g tensor"
  hm_infos :: "(string \<times> real list) list"

definition highlevel_step ::
  "('w, 'g::real_normed_vector) models \<Rightarrow> 'g tensor list \<Rightarrow> 'g hl_acc
     \<Rightarrow> ('w, 'g, 'z) hrl_trainer_scheme
     \<Rightarrow> ('w, 'g, 'z) hrl_trainer_scheme \<times> (error + 'g hl_minibatch)" where
  \<comment> \<open>The statements of a high-level mini-batch after the rewards are sliced.\<close>
  "highlevel_step md minibatch_neg_rewards acc st =
     (let neg_advantage = highlevel_neg_advantage st minibatch_neg_rewards
      in then_do (lift (reinforce_loss_of neg_advantage (ha_logprobs acc)) st)
           (\<lambda>reinforce_loss st1.
              then_do (highlevel_update md reinforce_loss st1)
                (\<lambda>_ st2.
                   (st2, Inr \<lparr>hm_neg_advantage = neg_advantage,
                              hm_logprobs = ha_logprobs acc,
                              hm_reinforce_loss = reinforce_loss,
                              hm_infos = ha_infos acc\<rparr>))))"

definition highlevel_minibatch ::
  "('w, 'g::real_normed_vector) models \<Rightarrow> ndarray \<Rightarrow> ndarray list \<Rightarrow> real list \<Rightarrow> int \<Rightarrow> int
     \<Rightarrow> (string \<times> real list) list \<Rightarrow> ('w, 'g, 'z) hrl_trainer_scheme
     \<Rightarrow> ('w, 'g, 'z) hrl_trainer_scheme \<times> (error + 'g hl_minibatch)" where
  "highlevel_minibatch md neg_rewards states actions train_loop i infos st =
     (let bs = train_highlevel_batch_size st;
          b = loop_batch_size states bs train_loop i;
          st0 = emit [Log (Msg_training_highlevel (train_highlevel_epoch st) (nat i) train_loop)] st
      in if b < 0 then (st0, Inl RuntimeError)
         else
           then_do (highlevel_samples md states actions i [0..<nat b]
                      \<lparr>ha_logprobs = [], ha_infos = infos\<rparr> st0)
             (\<lambda>acc st1.
                highlevel_step md (from_numpy (minibatch_rewards neg_rewards bs train_loop i))
                  acc st1))"

fun highlevel_loops ::
  "('w, 'g::real_normed_vector) models \<Rightarrow> ndarray \<Rightarrow> ndarray list \<Rightarrow> real list \<Rightarrow> int \<Rightarrow> nat list
     \<Rightarrow> (string \<times> real list) list \<Rightarrow> 'g hl_minibatch option \<Rightarrow> ('w, 'g, 'z) hrl_trainer_scheme
     \<Rightarrow> ('w, 'g, 'z) hrl_trainer_scheme \<times> (error + (string \<times> real list) list \<times> 'g hl_minibatch option)" where
  "highlevel_loops md neg_rewards states actions train_loop [] infos prev st =
     (st, Inr (infos, prev))"
| "highlevel_loops md neg_rewards states actions train_loop (i # is) infos prev st =
     (case highlevel_minibatch md neg_rewards states actions train_loop (int i) infos st of
        (st1, Inl e) \<Rightarrow> (st1, Inl e)
      | (st1, Inr mb) \<Rightarrow>
          highlevel_loops md neg_rewards states actions train_loop is (hm_infos mb) (Some mb) st1)"

definition highlevel_lr_update ::
  "('w, 'g, 'z) hrl_trainer_scheme \<Rightarrow> ('w, 'g, 'z) hrl_trainer_scheme \<times> (error + unit)" where
  "highlevel_lr_update st =
     (if lr_decay (cfg st) then
        (case highlevel_sched st of
           None \<Rightarrow> (st, Inl AttributeError)
         | Some k \<Rightarrow>
             if lr_decay_step (cfg st) = 0 then (st, Inl ZeroDivisionError)
             else let st1 = emit [Scheduler_step] (st\<lparr>highlevel_sched := Some (Suc k)\<rparr>)
                  in (emit [Log (Msg_highlevel_lr (train_highlevel_epoch st1) (highlevel_lr st1))] st1,
                      Inr ()))
      else (st, Inr ()))"

definition highlevel_stats ::
  "('w, 'g::real_vector) models \<Rightarrow> ndarray \<Rightarrow> real list \<Rightarrow> (string \<times> real list) list
     \<Rightarrow> 'g hl_minibatch option \<Rightarrow> ('w, 'g, 'z) hrl_trainer_scheme
     \<Rightarrow> error + (string \<times> real) list" where
  \<comment> \<open>The dictionary that \<open>_train_highlevel\<close> returns.\<close>
  "highlevel_stats md neg_rewards actions infos final_mb st =
     (case final_mb of
        None \<Rightarrow> Inl UnboundLocalError
      | Some mb \<Rightarrow>
          let s1 = dict_update []
                     (stats_dict md ''training_highlevel_policy/Neg Reward'' (elems neg_rewards));
              s2 = dict_update s1
                     (stats_dict md ''training_highlevel_policy/Neg Advantage''
                        [list_mean (map item (hm_neg_advantage mb))]);
              s3 = dict_update s2
                     (stats_dict md ''training_highlevel_policy/logprobs''
                        (map item (hm_logprobs mb)));
              s4 = dict_update s3
                     (stats_dict md ''training_highlevel_policy/cut_percent_actions'' actions);
              s5 = dict_set s4 ''training_highlevel_policy/reinforce loss''
                     (item (hm_reinforce_loss mb));
              s6 = dict_set s5 ''training_highlevel_policy/Critic Value''
                     (critic_exp_mvg_avg_high_level st)
          in Inr (fold (\<lambda>(k, vs) s. dict_update s
                                       (stats_dict md (''training_highlevel_policy'' @ k) vs))
                       infos s6))"

definition highlevel_states ::
  "('w, 'g) models \<Rightarrow> ('w, 'g, 'z) hrl_trainer_scheme
     \<Rightarrow> ('w, 'g, 'z) hrl_trainer_scheme \<times> (error + ndarray list)" where
  \<comment> \<open>The buffered states, normalised under \<open>normalize\<close> after an update of the
      normaliser.\<close>
  "highlevel_states md st =
     (let states = hs_state (training_highlevel_dataset st)
      in if normalize (cfg st) then
           let st1 = emit [Log Msg_normalizing] st
           in case np_vstack states of
                Inl e \<Rightarrow> (st1, Inl e)
              | Inr stack_states \<Rightarrow>
                  (case mean_std st1 of
                     None \<Rightarrow> (st1, Inl AttributeError)
                   | Some ms \<Rightarrow>
                       (case rms_update md stack_states ms of
                          Inl e \<Rightarrow> (st1, Inl e)
                        | Inr ms' \<Rightarrow>
                            (st1\<lparr>mean_std := Some ms'\<rparr>, map_err (normalize_state ms') states)))
         else (st, Inr states))"

definition train_highlevel ::
  "('w, 'g::real_normed_vector) models \<Rightarrow> ('w, 'g, 'z) hrl_trainer_scheme
     \<Rightarrow> ('w, 'g, 'z) hrl_trainer_scheme \<times> (error + (string \<times> real) list)" where
  \<comment> \<open>\<open>_train_highlevel\<close>.\<close>
  "train_highlevel md st =
     (let actions = hs_action (training_highlevel_dataset st)
      in then_do (lift (highlevel_rewards st) st)
           (\<lambda>neg_rewards st1.
              then_do (highlevel_states md st1)
                (\<lambda>states st2.
                   then_do (lift (compute_train_loop (length states)
                                    (train_highlevel_batch_size st2)) st2)
                     (\<lambda>train_loop st3.
                        then_do (highlevel_loops md neg_rewards states actions train_loop
                                   [0..<nat train_loop] [] None
                                   (update_highlevel_baseline neg_rewards st3))
                          (\<lambda>(infos, final_mb) st4.
                             then_do (highlevel_lr_update st4)
                               (\<lambda>_ st5.
                                  (st5, highlevel_stats md neg_rewards actions infos
                                          final_mb st5)))))))"

definition train_highlevel_policy ::
  "('w, 'g::real_normed_vector) models \<Rightarrow> raw_result list \<Rightarrow> int \<Rightarrow> ('w, 'g, 'z) hrl_trainer_scheme
     \<Rightarrow> ('w, 'g, 'z) hrl_trainer_scheme \<times> (error + (string \<times> real) list)" where
  \<comment> \<open>\<open>train_highlevel_policy\<close>: on an epoch that is no multiple of the frequency the
      method returns its empty \<open>stats\<close> and does nothing else.\<close>
  "train_highlevel_policy md raw_results epoch st =
     (if train_highlevel_policy_freq st = 0 then (st, Inl ZeroDivisionError)
      else if epoch mod train_highlevel_policy_freq st = 0 then
        then_do (update_highlevel_dataset raw_results st)
          (\<lambda>_ st1.
             then_do (train_highlevel md st1)
               (\<lambda>stats st2.
                  (st2\<lparr>train_highlevel_epoch := train_highlevel_epoch st2 + 1,
                       training_highlevel_dataset := empty_dataset\<rparr>,
                   Inr stats)))
      else (st, Inr []))"

definition hrl_save_checkpoint ::
  "int \<Rightarrow> ('w, 'g, 'z) hrl_trainer_scheme \<Rightarrow> ('w, 'g, 'z) hrl_trainer_scheme \<times> (error + unit)" where
  \<comment> \<open>\<open>HRLReinforceAlg.save_checkpoint\<close>.\<close>
  "hrl_save_checkpoint epoch st =
     (if normalize (cfg st) then
        (case mean_std st of
           None \<Rightarrow> (st, Inl AttributeError)
         | Some ms \<Rightarrow>
             (emit [Save_itr_params epoch
                      [(''pointer_net'', Weights (pointer_net st)),
                       (''cutsel_percent_net'', Weights (cutsel_percent_policy st)),
                       (''mean'', Vector (rms_mean ms)),
                       (''std'', Vector (rms_std ms)),
                       (''epsilon'', Scalar (rms_epsilon ms))]] st,
              Inr ()))
      else (emit [Save_itr_params epoch
                    [(''pointer_net'', Weights (pointer_net st)),
                     (''cutsel_percent_net'', Weights (cutsel_percent_policy st))]] st,
            Inr ()))"

definition hrl_train ::
  "('w, 'g::real_normed_vector) models \<Rightarrow> raw_result list \<Rightarrow> int
     \<Rightarrow> ('w, 'g, 'z) hrl_trainer_scheme \<Rightarrow> ('w, 'g, 'z) hrl_trainer_scheme \<times> (error + unit)" where
  \<comment> \<open>\<open>train\<close> on an \<open>HRLReinforceAlg\<close>.\<close>
  "hrl_train = train_with hrl_save_checkpoint"

definition toy_hrl_trainer :: "config \<Rightarrow> int \<Rightarrow> (real, real) hrl_trainer" where
  \<comment> \<open>What \<open>hrl_init\<close> builds on the example collaborators, with batch size \<open>32\<close> and
      learning rate \<open>1e-4\<close> for the high-level policy.\<close>
  "toy_hrl_trainer c freq =
     trainer.extend (toy_trainer c)
       (hrl_trainer.fields 1 (1 / 10000) (if lr_decay c then Some 0 else None)
          freq 32 1 empty_dataset 0)"

subsection \<open>Reading traces\<close>

definition is_checkpoint :: "('w, 'g) event \<Rightarrow> bool" where
  "is_checkpoint e = (case e of Save_itr_params _ _ \<Rightarrow> True | _ \<Rightarrow> False)"

definition is_policy_step :: "('w, 'g) event \<Rightarrow> bool" where
  "is_policy_step e = (case e of Policy_step _ \<Rightarrow> True | _ \<Rightarrow> False)"

definition is_optimizer_step :: "('w, 'g) event \<Rightarrow> bool" where
  "is_optimizer_step e = (case e of Policy_step _ \<Rightarrow> True | Value_step _ \<Rightarrow> True | _ \<Rightarrow> False)"

definition quiet :: "('w, 'g) event \<Rightarrow> bool" where
  \<comment> \<open>A call on the logger: neither an optimizer step nor a checkpoint write.\<close>
  "quiet e = (\<not> is_checkpoint e \<and> \<not> is_optimizer_step e)"

definition no_checkpoint :: "('w, 'g) event \<Rightarrow> bool" where
  "no_checkpoint e = (\<not> is_checkpoint e)"

definition emits ::
  "(('w, 'g) event \<Rightarrow> bool) \<Rightarrow> ('w, 'g, 'z) trainer_scheme \<Rightarrow> ('w, 'g, 'z) trainer_scheme \<Rightarrow> bool" where
  \<comment> \<open>From the first state to the second the trace grew, by events that satisfy \<open>P\<close>.\<close>
  "emits P st st' = (\<exists>es. trace st' = trace st @ es \<and> list_all P es)"

definition same_settings ::
  "('w, 'g, 'z) trainer_scheme \<Rightarrow> ('w, 'g, 'z) trainer_scheme \<Rightarrow> bool" where
  \<comment> \<open>The attributes that only the statements outside the mini-batch loop assign.\<close>
  "same_settings st st' =
     (cfg st' = cfg st \<and> critic_exp_mvg_avg st' = critic_exp_mvg_avg st
      \<and> policy_sched st' = policy_sched st \<and> mean_std st' = mean_std st)"

definition policy_steps :: "('w, 'g, 'z) trainer_scheme \<Rightarrow> nat" where
  \<comment> \<open>How often \<open>policy_optimizer.step()\<close> ran so far.\<close>
  "policy_steps st = length (filter is_policy_step (trace st))"

definition foo_config :: config where
  \<comment> \<open>The defaults, with a baseline type that \<open>train\<close> does not know.\<close>
  "foo_config = default_config\<lparr>baseline_type := ''foo''\<rparr>"


definition simple_config :: config where
  \<comment> \<open>The \<open>simple\<close> baseline on rewards that are used as they come: scale \<open>1\<close>, no
      reward normalisation.\<close>
  "simple_config = default_config\<lparr>baseline_type := ''simple'', normalize_reward := False\<rparr>"


definition normalized_simple_config :: config where
  \<comment> \<open>The \<open>simple\<close> baseline with the other options at their defaults: rewards are
      normalised.\<close>
  "normalized_simple_config = default_config\<lparr>baseline_type := ''simple''\<rparr>"

section \<open>Properties\<close>

subsection \<open>Mini-batch partition\<close>







subsection \<open>Aggregation\<close>

lemma sum_list_shift_scale:
  fixes xs :: "real list"
  shows "sum_list (map (\<lambda>x. (x - m) / d) xs) = (sum_list xs - real (length xs) * m) / d"
  by (induction xs) (simp_all add: algebra_simps add_divide_distrib diff_divide_distrib)

lemma list_mean_normalized:
  fixes xs :: "real list"
  assumes "xs \<noteq> []"
  shows "list_mean (map (\<lambda>x. (x - list_mean xs) / d) xs) = 0"
  using assms by (simp add: list_mean_def sum_list_shift_scale)

lemma sum_list_sq_scale:
  fixes xs :: "real list"
  shows "sum_list (map (\<lambda>x. ((x - m) / d)\<^sup>2) xs) = sum_list (map (\<lambda>x. (x - m)\<^sup>2) xs) / d\<^sup>2"
  by (induction xs) (simp_all add: power_divide add_divide_distrib)

lemma list_mean_sq_nonneg: "0 \<le> list_mean (map (\<lambda>x. (x - m)\<^sup>2) xs)"
proof -
  have "0 \<le> sum_list (map (\<lambda>x. (x - m)\<^sup>2) xs)"
    by (rule sum_list_nonneg) auto
  then show ?thesis by (simp add: list_mean_def)
qed

lemma list_std_nonneg: "0 \<le> list_std xs"
  by (simp add: list_std_def list_mean_sq_nonneg)

lemma list_std_normalized:
  fixes xs :: "real list"
  assumes "xs \<noteq> []" and "0 < d"
  shows "list_std (map (\<lambda>x. (x - list_mean xs) / d) xs) = list_std xs / d"
proof -
  let ?ys = "map (\<lambda>x. (x - list_mean xs) / d) xs"
  have m0: "list_mean ?ys = 0" by (rule list_mean_normalized [OF assms(1)])
  have "list_mean (map (\<lambda>y. (y - list_mean ?ys)\<^sup>2) ?ys)
      = list_mean (map (\<lambda>x. ((x - list_mean xs) / d)\<^sup>2) xs)"
    by (simp add: m0 comp_def)
  also have "\<dots> = list_mean (map (\<lambda>x. (x - list_mean xs)\<^sup>2) xs) / d\<^sup>2"
    by (simp add: list_mean_def sum_list_sq_scale)
  finally have "list_std ?ys = sqrt (list_mean (map (\<lambda>x. (x - list_mean xs)\<^sup>2) xs) / d\<^sup>2)"
    by (simp add: list_std_def)
  also have "\<dots> = list_std xs / d"
    using assms(2) by (simp add: real_sqrt_divide list_std_def)
  finally show ?thesis .
qed

lemma std_ratio_tolerance:
  fixes s :: real
  assumes "0 \<le> s"
  shows "\<bar>s / (s + 1 / 1000) - 1\<bar> \<le> 1 / 1000 \<longleftrightarrow> 999 / 1000 \<le> s"
proof -
  have d: "0 < s + 1 / 1000" using assms by simp
  have "s / (s + 1 / 1000) - 1 = - (1 / 1000) / (s + 1 / 1000)"
    using d by (simp add: field_simps)
  then have "\<bar>s / (s + 1 / 1000) - 1\<bar> = (1 / 1000) / (s + 1 / 1000)"
    using d by simp
  also have "\<dots> \<le> 1 / 1000 \<longleftrightarrow> 999 / 1000 \<le> s"
    using d by (simp add: field_simps)
  finally show ?thesis .
qed

lemma process_rewards_eq:
  assumes "rs \<noteq> []"
  shows "process_rewards rs st =
           (let scaled = map (\<lambda>x. reward_scale (cfg st) * x) rs
            in if normalize_reward (cfg st) then
                 (emit [Record_dict ''training/Nonnormalize Neg Reward'' scaled] st,
                  Inr \<lparr>nrows = length rs, ncols = 1,
                       elems = map (\<lambda>x. (x - list_mean scaled) / (list_std scaled + 1 / 1000))
                                   scaled\<rparr>)
               else (st, Inr \<lparr>nrows = length rs, ncols = 1, elems = scaled\<rparr>))"
  using assms
  by (simp add: process_rewards_def np_vstack_scalars_def np_scale_def np_mean_def
      np_std_def Let_def)

lemma process_rewards_empty: "process_rewards [] st = (st, Inl ValueError)"
  by (simp add: process_rewards_def np_vstack_scalars_def)

lemma normalized_stats:
  fixes xs :: "real list"
  assumes ne: "xs \<noteq> []"
  defines "s \<equiv> list_std xs"
  defines "ys \<equiv> map (\<lambda>x. (x - list_mean xs) / (s + 1 / 1000)) xs"
  shows "list_mean ys = 0 \<and> list_std ys = s / (s + 1 / 1000) \<and> list_std ys < 1
       \<and> (\<bar>list_std ys - 1\<bar> \<le> 1 / 1000 \<longleftrightarrow> 999 / 1000 \<le> s)"
proof -
  have s0: "0 \<le> s" unfolding s_def by (rule list_std_nonneg)
  then have d: "0 < s + 1 / 1000" by simp
  have m: "list_mean ys = 0" unfolding ys_def by (rule list_mean_normalized [OF ne])
  have sd: "list_std ys = s / (s + 1 / 1000)"
    unfolding ys_def s_def [symmetric] using list_std_normalized [OF ne d] by (simp add: s_def)
  have lt: "s / (s + 1 / 1000) < 1" using d by simp
  have tol: "\<bar>s / (s + 1 / 1000) - 1\<bar> \<le> 1 / 1000 \<longleftrightarrow> 999 / 1000 \<le> s"
    by (rule std_ratio_tolerance [OF s0])
  show ?thesis using m sd lt tol by simp
qed

lemma std_small_example: "list_std [0, 1 / 500] = 1 / 1000"
proof -
  have "list_mean (map (\<lambda>x. (x - list_mean [0, 1 / 500])\<^sup>2) [0, 1 / 500 :: real]) = (1 / 1000)\<^sup>2"
    by (simp add: list_mean_def power2_eq_square)
  then have "list_std [0, 1 / 500] = sqrt ((1 / 1000)\<^sup>2)"
    by (simp only: list_std_def)
  also have "\<dots> = \<bar>1 / 1000\<bar>" by (rule real_sqrt_abs)
  finally show ?thesis by simp
qed

lemma std_unit_example: "list_std [2, 4] = 1"
proof -
  have sm: "list_mean (map (\<lambda>x. (x - list_mean [2, 4])\<^sup>2) [2, 4 :: real]) = 1\<^sup>2"
    by (simp add: list_mean_def)
  have "list_std [2, 4] = sqrt (1\<^sup>2)"
    using sm by (simp only: list_std_def)
  then show ?thesis by simp
qed

lemma map_err_length: "map_err f xs = Inr ys \<Longrightarrow> length ys = length xs"
  by (induction xs arbitrary: ys) (auto split: sum.splits)

lemma emit_simps [simp]:
  "trace (emit es st) = trace st @ es"
  "cfg (emit es st) = cfg st"
  "pointer_net (emit es st) = pointer_net st"
  "value_net (emit es st) = value_net st"
  "critic_exp_mvg_avg (emit es st) = critic_exp_mvg_avg st"
  "policy_sched (emit es st) = policy_sched st"
  "mean_std (emit es st) = mean_std st"
  by (simp_all add: emit_def)

lemma process_states_result:
  assumes "process_states md states st = (st', r)"
  shows "cfg st' = cfg st \<and> critic_exp_mvg_avg st' = critic_exp_mvg_avg st
       \<and> pointer_net st' = pointer_net st \<and> value_net st' = value_net st
       \<and> policy_sched st' = policy_sched st
       \<and> (\<exists>es. trace st' = trace st @ es
               \<and> (\<forall>e \<in> set es. (\<exists>k xs. e = Record_feature ''non-normalize'' k xs)
                                 \<or> e = Log Msg_normalizing))
       \<and> (\<forall>ss. r = Inr ss \<longrightarrow> length ss = length states)
       \<and> (\<not> normalize (cfg st) \<longrightarrow> st' = st \<and> r = Inr states)"
  using assms
  by (auto simp: process_states_def Let_def map_err_length
      split: if_splits sum.splits option.splits)

lemma process_data_unfold:
  "process_data md raw st =
     (case process_rewards (concat (map (ds_neg_reward \<circ> res_low) raw)) st of
        (st1, Inl e) \<Rightarrow> (st1, Inl e)
      | (st1, Inr nr) \<Rightarrow>
          (case merge_step_infos (map res_info raw) of
             Inl e \<Rightarrow> (st1, Inl e)
           | Inr infos \<Rightarrow>
               (case process_states md (concat (map (ds_state \<circ> res_low) raw)) st1 of
                  (st2, Inl e) \<Rightarrow> (st2, Inl e)
                | (st2, Inr ss) \<Rightarrow>
                    (st2, Inr \<lparr>tb_neg_rewards = nr, tb_states = ss,
                               tb_actions = concat (map (ds_action \<circ> res_low) raw),
                               tb_sel_cuts_nums = concat (map (ds_sel_cuts_num \<circ> res_low) raw),
                               tb_step_infos = infos\<rparr>))))"
  by (simp add: process_data_def Let_def split: sum.splits prod.splits)

lemma process_rewards_result:
  assumes "process_rewards rs st = (st1, r)"
  shows "cfg st1 = cfg st \<and> critic_exp_mvg_avg st1 = critic_exp_mvg_avg st
       \<and> pointer_net st1 = pointer_net st \<and> value_net st1 = value_net st
       \<and> policy_sched st1 = policy_sched st \<and> mean_std st1 = mean_std st
       \<and> (\<exists>es. trace st1 = trace st @ es \<and> (\<forall>e \<in> set es. \<exists>l xs. e = Record_dict l xs))
       \<and> (\<forall>a. r = Inr a \<longrightarrow>
             rs \<noteq> [] \<and> nrows a = length rs \<and> ncols a = 1 \<and> length (elems a) = length rs)"
proof (cases "rs = []")
  case True
  with assms show ?thesis by (auto simp: process_rewards_empty)
next
  case False
  from assms show ?thesis
    unfolding process_rewards_eq [OF False] Let_def
    using False by (auto split: if_splits)
qed

lemma process_data_result:
  assumes "process_data md raw st = (st', Inr b)"
  shows "\<exists>st1. process_rewards (concat (map (ds_neg_reward \<circ> res_low) raw)) st
                  = (st1, Inr (tb_neg_rewards b))
         \<and> (\<exists>es'. trace st' = trace st1 @ es'
               \<and> (\<forall>e \<in> set es'. (\<exists>k xs. e = Record_feature ''non-normalize'' k xs)
                                   \<or> e = Log Msg_normalizing))
         \<and> length (tb_states b) = length (concat (map (ds_state \<circ> res_low) raw))
         \<and> tb_actions b = concat (map (ds_action \<circ> res_low) raw)
         \<and> tb_sel_cuts_nums b = concat (map (ds_sel_cuts_num \<circ> res_low) raw)
         \<and> merge_step_infos (map res_info raw) = Inr (tb_step_infos b)
         \<and> (\<not> normalize (cfg st) \<longrightarrow> tb_states b = concat (map (ds_state \<circ> res_low) raw))
         \<and> cfg st' = cfg st \<and> critic_exp_mvg_avg st' = critic_exp_mvg_avg st
         \<and> pointer_net st' = pointer_net st \<and> value_net st' = value_net st
         \<and> policy_sched st' = policy_sched st"
proof -
  let ?rs = "concat (map (ds_neg_reward \<circ> res_low) raw)"
  let ?states = "concat (map (ds_state \<circ> res_low) raw)"
  obtain st1 r1 where pr: "process_rewards ?rs st = (st1, r1)"
    by (cases "process_rewards ?rs st")
  note P = process_rewards_result [OF pr]
  show ?thesis
  proof (cases r1)
    case (Inl e)
    with assms pr show ?thesis by (simp add: process_data_unfold)
  next
    case nr: (Inr nr)
    show ?thesis
    proof (cases "merge_step_infos (map res_info raw)")
      case (Inl e)
      with assms pr nr show ?thesis by (simp add: process_data_unfold)
    next
      case mi: (Inr infos)
      obtain st2 r where ps: "process_states md ?states st1 = (st2, r)"
        by (cases "process_states md ?states st1")
      note R = process_states_result [OF ps]
      show ?thesis
      proof (cases r)
        case (Inl e)
        with assms pr nr mi ps show ?thesis by (simp add: process_data_unfold)
      next
        case ss: (Inr ss)
        from assms pr nr mi ps ss have st': "st' = st2"
          and b: "b = \<lparr>tb_neg_rewards = nr, tb_states = ss,
                 tb_actions = concat (map (ds_action \<circ> res_low) raw),
                 tb_sel_cuts_nums = concat (map (ds_sel_cuts_num \<circ> res_low) raw),
                 tb_step_infos = infos\<rparr>"
          by (simp_all add: process_data_unfold)
        from R obtain es' where tr: "trace st2 = trace st1 @ es'"
          and ev: "\<forall>e \<in> set es'. (\<exists>k xs. e = Record_feature ''non-normalize'' k xs)
                             \<or> e = Log Msg_normalizing"
          by blast
        have len: "length ss = length ?states" using R ss by blast
        have nn: "\<not> normalize (cfg st) \<longrightarrow> ss = ?states" using R P ss by simp
        have keep: "cfg st2 = cfg st \<and> critic_exp_mvg_avg st2 = critic_exp_mvg_avg st
            \<and> pointer_net st2 = pointer_net st \<and> value_net st2 = value_net st
            \<and> policy_sched st2 = policy_sched st"
          using R P by simp
        have a: "process_rewards ?rs st = (st1, Inr (tb_neg_rewards b))"
          using pr nr by (simp add: b)
        have c: "\<exists>es'. trace st' = trace st1 @ es'
               \<and> (\<forall>e \<in> set es'. (\<exists>k xs. e = Record_feature ''non-normalize'' k xs)
                                   \<or> e = Log Msg_normalizing)"
          using tr ev st' by blast
        show ?thesis
          apply (rule exI [of _ st1])
          using a c len nn keep mi by (simp add: b st')
      qed
    qed
  qed
qed

lemma concat_lengths_eq:
  assumes "\<forall>r \<in> set raw. length (f r) = length (g r)"
  shows "length (concat (map f raw)) = length (concat (map g raw))"
  using assms by (induction raw) auto

text \<open>
  Claim C7. When every episode's low-level dataset has state, action, selection-count
  and reward lists of one length, whatever \<open>_process_data\<close> returns has as many states
  as action lists, selection counts and rewards, and the rewards are a column vector
  (one column, one row per sample). Nothing relates the lengths of the action lists to
  the selection counts.
\<close>

theorem process_data_lengths:
  assumes wf: "\<forall>r \<in> set raw_results.
                 length (ds_state (res_low r)) = length (ds_action (res_low r))
               \<and> length (ds_action (res_low r)) = length (ds_sel_cuts_num (res_low r))
               \<and> length (ds_sel_cuts_num (res_low r)) = length (ds_neg_reward (res_low r))"
    and ret: "process_data md raw_results st = (st', Inr b)"
  shows "length (tb_states b) = length (tb_actions b)
       \<and> length (tb_actions b) = length (tb_sel_cuts_nums b)
       \<and> length (tb_sel_cuts_nums b) = nrows (tb_neg_rewards b)
       \<and> ncols (tb_neg_rewards b) = 1
       \<and> length (elems (tb_neg_rewards b)) = nrows (tb_neg_rewards b)
       \<and> 0 < nrows (tb_neg_rewards b)"
proof -
  from process_data_result [OF ret] obtain st1 where
    pr: "process_rewards (concat (map (ds_neg_reward \<circ> res_low) raw_results)) st
          = (st1, Inr (tb_neg_rewards b))"
    and ls: "length (tb_states b) = length (concat (map (ds_state \<circ> res_low) raw_results))"
    and a: "tb_actions b = concat (map (ds_action \<circ> res_low) raw_results)"
    and k: "tb_sel_cuts_nums b = concat (map (ds_sel_cuts_num \<circ> res_low) raw_results)"
    by blast
  from process_rewards_result [OF pr]
  have sh: "concat (map (ds_neg_reward \<circ> res_low) raw_results) \<noteq> []
      \<and> nrows (tb_neg_rewards b) = length (concat (map (ds_neg_reward \<circ> res_low) raw_results))
      \<and> ncols (tb_neg_rewards b) = 1
      \<and> length (elems (tb_neg_rewards b))
          = length (concat (map (ds_neg_reward \<circ> res_low) raw_results))"
    by blast
  have 1: "length (concat (map (ds_state \<circ> res_low) raw_results))
         = length (concat (map (ds_action \<circ> res_low) raw_results))"
    by (rule concat_lengths_eq) (use wf in auto)
  have 2: "length (concat (map (ds_action \<circ> res_low) raw_results))
         = length (concat (map (ds_sel_cuts_num \<circ> res_low) raw_results))"
    by (rule concat_lengths_eq) (use wf in auto)
  have 3: "length (concat (map (ds_sel_cuts_num \<circ> res_low) raw_results))
         = length (concat (map (ds_neg_reward \<circ> res_low) raw_results))"
    by (rule concat_lengths_eq) (use wf in auto)
  have pos: "0 < length (concat (map (ds_neg_reward \<circ> res_low) raw_results))"
    using sh by blast
  show ?thesis using sh ls a k 1 2 3 pos by simp
qed

lemma toy_process_data:
  assumes "\<not> normalize (cfg st)"
  shows "process_data md [toy_episode rs] st =
     (fst (process_rewards rs st),
      case snd (process_rewards rs st) of
        Inl e \<Rightarrow> Inl e
      | Inr nr \<Rightarrow> Inr \<lparr>tb_neg_rewards = nr, tb_states = map toy_state rs,
                        tb_actions = map (\<lambda>_. [0, 1]) rs,
                        tb_sel_cuts_nums = map (\<lambda>_. 5) rs,
                        tb_step_infos = [(''solving_time'', [1])]\<rparr>)"
proof -
  obtain st1 r where pr: "process_rewards rs st = (st1, r)"
    by (cases "process_rewards rs st")
  have c: "cfg st1 = cfg st" using process_rewards_result [OF pr] by simp
  have mi: "merge_step_infos [[(''solving_time'', [1])]] = Inr [(''solving_time'', [1])]"
    by (simp add: merge_step_infos_def)
  show ?thesis
    using assms c
    by (cases r) (simp_all add: process_data_unfold pr mi process_states_def toy_episode_def)
qed

lemma std_half_example: "list_std [- (1 / 2), 1 / 2] = 1 / 2"
proof -
  have "list_mean (map (\<lambda>x. (x - list_mean [- (1 / 2), 1 / 2])\<^sup>2) [- (1 / 2), 1 / 2 :: real])
      = (1 / 2)\<^sup>2"
    by (simp add: list_mean_def power2_eq_square)
  then have "list_std [- (1 / 2), 1 / 2] = sqrt ((1 / 2)\<^sup>2)"
    by (simp only: list_std_def)
  also have "\<dots> = \<bar>1 / 2\<bar>" by (rule real_sqrt_abs)
  finally show ?thesis by simp
qed

text \<open>
  An episode with two samples is aggregated into two states, two action lists, two
  selection counts and a \<open>2 \<times> 1\<close> reward column, although its action lists have four
  entries in total and its selection counts add up to ten.
\<close>

theorem process_data_lengths_witness:
  "length (ds_state (res_low (toy_episode [2, 4]))) = length (ds_action (res_low (toy_episode [2, 4])))
   \<and> length (ds_action (res_low (toy_episode [2, 4])))
       = length (ds_sel_cuts_num (res_low (toy_episode [2, 4])))
   \<and> length (ds_sel_cuts_num (res_low (toy_episode [2, 4])))
       = length (ds_neg_reward (res_low (toy_episode [2, 4])))
   \<and> (\<exists>st' b. process_data toy_models [toy_episode [2, 4]] (toy_trainer default_config)
                 = (st', Inr b)
        \<and> length (tb_states b) = 2 \<and> length (tb_actions b) = 2
        \<and> length (tb_sel_cuts_nums b) = 2 \<and> nrows (tb_neg_rewards b) = 2
        \<and> ncols (tb_neg_rewards b) = 1
        \<and> sum_list (map (int \<circ> length) (tb_actions b)) = 4
        \<and> sum_list (tb_sel_cuts_nums b) = 10)"
proof -
  let ?st = "toy_trainer default_config"
  have nn: "\<not> normalize (cfg ?st)" by (simp add: toy_trainer_def default_config_def)
  have "\<exists>st1 nr. process_rewards [2, 4] ?st = (st1, Inr nr)"
    by (simp add: process_rewards_eq Let_def)
  then obtain st1 nr where pr: "process_rewards [2, 4] ?st = (st1, Inr nr)"
    by blast
  define b where "b = \<lparr>tb_neg_rewards = nr, tb_states = map toy_state [2, 4],
                        tb_actions = map (\<lambda>_. [0, 1]) [2, 4 :: real],
                        tb_sel_cuts_nums = map (\<lambda>_. 5) [2, 4 :: real],
                        tb_step_infos = [(''solving_time'', [1])]\<rparr>"
  have ret: "process_data toy_models [toy_episode [2, 4]] ?st = (st1, Inr b)"
    by (simp add: toy_process_data [OF nn] pr b_def)
  have acts: "tb_actions b = [[0, 1], [0, 1]]" and sel: "tb_sel_cuts_nums b = [5, 5]"
    by (simp_all add: b_def)
  have wf: "\<forall>r \<in> set [toy_episode [2, 4]].
                 length (ds_state (res_low r)) = length (ds_action (res_low r))
               \<and> length (ds_action (res_low r)) = length (ds_sel_cuts_num (res_low r))
               \<and> length (ds_sel_cuts_num (res_low r)) = length (ds_neg_reward (res_low r))"
    by (simp add: toy_episode_def)
  note L = process_data_lengths [OF wf ret]
  have "length (tb_states b) = 2 \<and> length (tb_actions b) = 2
        \<and> length (tb_sel_cuts_nums b) = 2 \<and> nrows (tb_neg_rewards b) = 2
        \<and> ncols (tb_neg_rewards b) = 1"
    using L acts by simp
  then show ?thesis
    using ret acts sel by (auto simp: toy_episode_def)
qed

subsection \<open>Reward scaling and normalisation\<close>

text \<open>
  Claim C5, as the code has it. \<open>_process_data\<close> multiplies the rewards by
  \<open>reward_scale\<close> whatever the configuration. With \<open>normalize_reward\<close> it first logs
  the scaled, un-normalised rewards and then returns
  \<open>(reward - mean) / (std + 1e-3)\<close>; without it, it logs nothing of the kind and returns
  the scaled rewards. The normalised rewards have mean \<open>0\<close> and standard deviation
  \<open>s / (s + 1e-3)\<close>, where \<open>s\<close> is the standard deviation of the scaled rewards: always
  below \<open>1\<close>, and within \<open>1e-3\<close> of \<open>1\<close> exactly when \<open>s \<ge> 0.999\<close>.
\<close>

theorem process_data_rewards:
  assumes ret: "process_data md raw_results st = (st', Inr b)"
  shows "(let rs = concat (map (ds_neg_reward \<circ> res_low) raw_results);
              scaled = map (\<lambda>x. reward_scale (cfg st) * x) rs;
              s = list_std scaled
          in rs \<noteq> []
           \<and> (if normalize_reward (cfg st) then
                 elems (tb_neg_rewards b)
                   = map (\<lambda>x. (x - list_mean scaled) / (s + 1 / 1000)) scaled
               \<and> (\<exists>es. trace st'
                     = trace st @ Record_dict ''training/Nonnormalize Neg Reward'' scaled # es)
               \<and> np_mean (tb_neg_rewards b) = 0
               \<and> np_std (tb_neg_rewards b) = s / (s + 1 / 1000)
               \<and> np_std (tb_neg_rewards b) < 1
               \<and> (\<bar>np_std (tb_neg_rewards b) - 1\<bar> \<le> 1 / 1000 \<longleftrightarrow> 999 / 1000 \<le> s)
              else
                 elems (tb_neg_rewards b) = scaled
               \<and> (\<exists>es. trace st' = trace st @ es
                     \<and> (\<forall>xs. Record_dict ''training/Nonnormalize Neg Reward'' xs \<notin> set es))))"
proof -
  let ?rs = "concat (map (ds_neg_reward \<circ> res_low) raw_results)"
  let ?scaled = "map (\<lambda>x. reward_scale (cfg st) * x) ?rs"
  let ?s = "list_std ?scaled"
  from process_data_result [OF ret] obtain st1 es' where
    pr: "process_rewards ?rs st = (st1, Inr (tb_neg_rewards b))"
    and tr: "trace st' = trace st1 @ es'"
    and ev: "\<forall>e \<in> set es'. (\<exists>k xs. e = Record_feature ''non-normalize'' k xs)
                             \<or> e = Log Msg_normalizing"
    by blast
  have ne: "?rs \<noteq> []" using process_rewards_result [OF pr] by blast
  then have ne': "?scaled \<noteq> []" by simp
  note E = pr [unfolded process_rewards_eq [OF ne] Let_def]
  define scaled where "scaled = ?scaled"
  define sd where "sd = list_std scaled"
  define ys where "ys = map (\<lambda>x. (x - list_mean scaled) / (sd + 1 / 1000)) scaled"
  define a where "a = tb_neg_rewards b"
  define label where "label = ''training/Nonnormalize Neg Reward''"
  have nes: "scaled \<noteq> []" unfolding scaled_def by (rule ne')
  note E' = E [folded scaled_def, folded sd_def, folded ys_def a_def label_def]
  show ?thesis
  proof (cases "normalize_reward (cfg st)")
    case True
    from E' True have eq: "(emit [Record_dict label scaled] st,
          (Inr \<lparr>nrows = length ?rs, ncols = 1, elems = ys\<rparr> :: error + ndarray))
        = (st1, Inr a)"
      by (simp only: if_True)
    have st1: "st1 = emit [Record_dict label scaled] st"
      using eq by (metis prod.inject)
    have "a = \<lparr>nrows = length ?rs, ncols = 1, elems = ys\<rparr>"
      using eq by (metis prod.inject sum.inject(2))
    then have el: "elems a = ys" by (simp only: ndarray.simps)
    have t: "\<exists>es. trace st' = trace st @ Record_dict label scaled # es"
      using tr st1 by simp
    have N: "list_mean ys = 0 \<and> list_std ys = sd / (sd + 1 / 1000) \<and> list_std ys < 1
       \<and> (\<bar>list_std ys - 1\<bar> \<le> 1 / 1000 \<longleftrightarrow> 999 / 1000 \<le> sd)"
      unfolding ys_def sd_def by (rule normalized_stats [OF nes])
    have G: "?rs \<noteq> []
        \<and> (elems a = ys
           \<and> (\<exists>es. trace st' = trace st @ Record_dict label scaled # es)
           \<and> np_mean a = 0
           \<and> np_std a = sd / (sd + 1 / 1000)
           \<and> np_std a < 1
           \<and> (\<bar>np_std a - 1\<bar> \<le> 1 / 1000 \<longleftrightarrow> 999 / 1000 \<le> sd))"
    proof -
      have N': "np_mean a = 0 \<and> np_std a = sd / (sd + 1 / 1000) \<and> np_std a < 1
         \<and> (\<bar>np_std a - 1\<bar> \<le> 1 / 1000 \<longleftrightarrow> 999 / 1000 \<le> sd)"
        unfolding np_mean_def np_std_def el by (rule N)
      show ?thesis using ne el t N' by blast
    qed
    show ?thesis
      unfolding Let_def if_P [OF True]
      by (rule G [unfolded ys_def sd_def scaled_def a_def label_def])
  next
    case False
    from E' False have eq: "(st, (Inr \<lparr>nrows = length ?rs, ncols = 1, elems = scaled\<rparr>
             :: error + ndarray))
        = (st1, Inr a)"
      by (simp only: if_False)
    have st1: "st1 = st" using eq by (metis prod.inject)
    have "a = \<lparr>nrows = length ?rs, ncols = 1, elems = scaled\<rparr>"
      using eq by (metis prod.inject sum.inject(2))
    then have el: "elems a = scaled" by (simp only: ndarray.simps)
    have "\<forall>xs. Record_dict label xs \<notin> set es'"
      using ev by auto
    then have t: "\<exists>es. trace st' = trace st @ es \<and> (\<forall>xs. Record_dict label xs \<notin> set es)"
      using tr st1 by blast
    have G: "?rs \<noteq> [] \<and> (elems a = scaled
        \<and> (\<exists>es. trace st' = trace st @ es \<and> (\<forall>xs. Record_dict label xs \<notin> set es)))"
      using ne el t by blast
    show ?thesis
      unfolding Let_def if_not_P [OF False]
      by (rule G [unfolded scaled_def a_def label_def])
  qed
qed

lemma toy_default_cfg:
  "cfg (toy_trainer default_config) = default_config"
  "normalize_reward default_config" "\<not> normalize default_config"
  "reward_scale default_config = 1"
  "trace (toy_trainer default_config) = []"
  by (simp_all add: toy_trainer_def default_config_def)

text \<open>
  Rewards \<open>[2, 4]\<close> have standard deviation \<open>1\<close>: they are logged, then normalised to
  \<open>[-1000/1001, 1000/1001]\<close>, with mean \<open>0\<close> and standard deviation \<open>1000/1001\<close>.
\<close>

theorem process_data_rewards_witness:
  "\<exists>st' b. process_data toy_models [toy_episode [2, 4]] (toy_trainer default_config) = (st', Inr b)
      \<and> normalize_reward (cfg (toy_trainer default_config))
      \<and> elems (tb_neg_rewards b) = [- (1000 / 1001), 1000 / 1001]
      \<and> trace st' = [Record_dict ''training/Nonnormalize Neg Reward'' [2, 4]]
      \<and> np_mean (tb_neg_rewards b) = 0
      \<and> np_std (tb_neg_rewards b) = 1000 / 1001"
proof -
  let ?st = "toy_trainer default_config"
  have nn: "\<not> normalize (cfg ?st)" and n: "normalize_reward (cfg ?st)"
    by (simp_all add: toy_default_cfg)
  have "\<exists>st1 nr. process_rewards [2, 4] ?st = (st1, Inr nr)"
    by (simp add: process_rewards_eq Let_def)
  then obtain st1 nr where pr: "process_rewards [2, 4] ?st = (st1, Inr nr)"
    by blast
  define b where "b = \<lparr>tb_neg_rewards = nr, tb_states = map toy_state [2, 4],
                        tb_actions = map (\<lambda>_. [0, 1]) [2, 4 :: real],
                        tb_sel_cuts_nums = map (\<lambda>_. 5) [2, 4 :: real],
                        tb_step_infos = [(''solving_time'', [1])]\<rparr>"
  have ret: "process_data toy_models [toy_episode [2, 4]] ?st = (st1, Inr b)"
    by (simp add: toy_process_data [OF nn] pr b_def)
  have sc: "map (\<lambda>x. reward_scale (cfg ?st) * x)
              (concat (map (ds_neg_reward \<circ> res_low) [toy_episode [2, 4]])) = [2, 4]"
    by (simp add: toy_default_cfg toy_episode_def)
  note T = process_data_rewards [OF ret, unfolded Let_def sc std_unit_example if_P [OF n]]
  have el: "elems (tb_neg_rewards b) = [- (1000 / 1001), 1000 / 1001]"
    using T by (simp add: list_mean_def)
  have tr: "trace st1 = [Record_dict ''training/Nonnormalize Neg Reward'' [2, 4]]"
    using pr by (auto simp: process_rewards_eq Let_def toy_default_cfg)
  have m: "np_mean (tb_neg_rewards b) = 0" and sd: "np_std (tb_neg_rewards b) = 1000 / 1001"
    using T by simp_all
  show ?thesis using ret n el tr m sd by blast
qed

text \<open>
  Rewards \<open>[0, 0.002]\<close> have a nonzero standard deviation, \<open>0.001\<close>; after
  normalisation the standard deviation is \<open>1/2\<close>, not within \<open>1e-3\<close> of \<open>1\<close>.
\<close>

theorem process_data_std_counterexample:
  "snd (process_data toy_models [toy_episode [0, 1 / 500]] (toy_trainer default_config))
     = Inr \<lparr>tb_neg_rewards = \<lparr>nrows = 2, ncols = 1, elems = [- (1 / 2), 1 / 2]\<rparr>,
            tb_states = [toy_state 0, toy_state (1 / 500)],
            tb_actions = [[0, 1], [0, 1]], tb_sel_cuts_nums = [5, 5],
            tb_step_infos = [(''solving_time'', [1])]\<rparr>
   \<and> normalize_reward (cfg (toy_trainer default_config))
   \<and> list_std (map (\<lambda>x. reward_scale (cfg (toy_trainer default_config)) * x) [0, 1 / 500])
       = 1 / 1000
   \<and> np_std \<lparr>nrows = 2, ncols = 1, elems = [- (1 / 2), 1 / 2]\<rparr> = 1 / 2
   \<and> \<not> \<bar>np_std \<lparr>nrows = 2, ncols = 1, elems = [- (1 / 2), 1 / 2]\<rparr> - 1\<bar> \<le> 1 / 1000"
proof -
  let ?st = "toy_trainer default_config"
  have nn: "\<not> normalize (cfg ?st)" and n: "normalize_reward (cfg ?st)"
    by (simp_all add: toy_default_cfg)
  have sc: "map (\<lambda>x. reward_scale (cfg ?st) * x) [0, 1 / 500] = [0, 1 / 500]"
    by (simp add: toy_default_cfg)
  have ne: "[0, 1 / 500 :: real] \<noteq> []" by simp
  have pr: "snd (process_rewards [0, 1 / 500] ?st)
      = Inr \<lparr>nrows = 2, ncols = 1, elems = [- (1 / 2), 1 / 2]\<rparr>"
    unfolding process_rewards_eq [OF ne] Let_def sc std_small_example if_P [OF n]
    by (simp add: list_mean_def numeral_2_eq_2)
  have a: "snd (process_data toy_models [toy_episode [0, 1 / 500]] ?st)
     = Inr \<lparr>tb_neg_rewards = \<lparr>nrows = 2, ncols = 1, elems = [- (1 / 2), 1 / 2]\<rparr>,
            tb_states = [toy_state 0, toy_state (1 / 500)],
            tb_actions = [[0, 1], [0, 1]], tb_sel_cuts_nums = [5, 5],
            tb_step_infos = [(''solving_time'', [1])]\<rparr>"
    by (simp add: toy_process_data [OF nn] pr)
  have s: "list_std (map (\<lambda>x. reward_scale (cfg ?st) * x) [0, 1 / 500]) = 1 / 1000"
    unfolding sc by (rule std_small_example)
  have h: "np_std \<lparr>nrows = 2, ncols = 1, elems = [- (1 / 2), 1 / 2]\<rparr> = 1 / 2"
    by (simp add: np_std_def std_half_example)
  show ?thesis using a n s h by simp
qed

subsection \<open>Sequencing and traces\<close>

lemma then_do_cases:
  assumes "then_do m f = (st', r)"
  shows "(\<exists>e. m = (st', Inl e) \<and> r = Inl e) \<or> (\<exists>s x. m = (s, Inr x) \<and> f x s = (st', r))"
  using assms by (auto simp: then_do_def split: prod.splits sum.splits)

lemma then_do_Inl [simp]: "then_do (s, Inl e) f = (s, Inl e)"
  by (simp add: then_do_def)

lemma then_do_Inr [simp]: "then_do (s, Inr x) f = f x s"
  by (simp add: then_do_def)

lemma then_do_rel:
  assumes "R st (fst m)"
      and "\<And>x s. m = (s, Inr x) \<Longrightarrow> R s (fst (f x s))"
      and "\<And>a b c. R a b \<Longrightarrow> R b c \<Longrightarrow> R a c"
  shows "R st (fst (then_do m f))"
proof (cases m)
  case (Pair s r)
  show ?thesis
  proof (cases r)
    case (Inl e)
    with Pair assms(1) show ?thesis by simp
  next
    case (Inr x)
    with Pair assms(1) assms(2) [of s x] assms(3) show ?thesis by simp
  qed
qed

lemma emits_refl [simp]: "emits P st st"
  by (simp add: emits_def)

lemma emits_trans: "emits P a b \<Longrightarrow> emits P b c \<Longrightarrow> emits P a c"
  by (auto simp: emits_def)

lemma emits_mono: "emits P a b \<Longrightarrow> (\<And>e. P e \<Longrightarrow> Q e) \<Longrightarrow> emits Q a b"
  by (auto simp: emits_def list_all_iff)

lemma emits_emit: "list_all P es \<Longrightarrow> emits P st (emit es st)"
  by (simp add: emits_def)

lemma emits_emit_after: "emits P a b \<Longrightarrow> list_all P es \<Longrightarrow> emits P a (emit es b)"
  by (auto simp: emits_def)

lemma same_settings_refl [simp]: "same_settings st st"
  by (simp add: same_settings_def)

lemma same_settings_trans: "same_settings a b \<Longrightarrow> same_settings b c \<Longrightarrow> same_settings a c"
  by (simp add: same_settings_def)

lemma same_settings_emit [simp]: "same_settings st (emit es st)"
  by (simp add: same_settings_def)

lemma same_settings_emit_after: "same_settings a b \<Longrightarrow> same_settings a (emit es b)"
  by (simp add: same_settings_def)

lemma quiet_simps [simp]:
  "quiet (Log m)" "quiet (Record_dict l xs)" "quiet (Record_tabular l x)"
  "quiet (Record_dicts ds)" "quiet (Record_feature l k xs)" "quiet (Add_histogram l xs)"
  "quiet (Add_position_histogram k xs)" "quiet Scheduler_step"
  "\<not> quiet (Policy_step g)" "\<not> quiet (Value_step g)" "\<not> quiet (Save_itr_params n c)"
  by (simp_all add: quiet_def is_checkpoint_def is_optimizer_step_def)

lemma no_checkpoint_simps [simp]:
  "no_checkpoint (Log m)" "no_checkpoint (Record_dict l xs)"
  "no_checkpoint (Record_tabular l x)"
  "no_checkpoint (Record_dicts ds)" "no_checkpoint (Record_feature l k xs)"
  "no_checkpoint (Add_histogram l xs)"
  "no_checkpoint (Add_position_histogram k xs)" "no_checkpoint Scheduler_step"
  "no_checkpoint (Policy_step g)" "no_checkpoint (Value_step g)"
  "\<not> no_checkpoint (Save_itr_params n c)"
  by (simp_all add: no_checkpoint_def is_checkpoint_def)

lemma is_policy_step_simps [simp]:
  "\<not> is_policy_step (Log m)" "\<not> is_policy_step (Record_dict l xs)"
  "\<not> is_policy_step (Record_tabular l x)"
  "\<not> is_policy_step (Record_dicts ds)" "\<not> is_policy_step (Record_feature l k xs)"
  "\<not> is_policy_step (Add_histogram l xs)"
  "\<not> is_policy_step (Add_position_histogram k xs)" "\<not> is_policy_step Scheduler_step"
  "is_policy_step (Policy_step g)" "\<not> is_policy_step (Value_step g)"
  "\<not> is_policy_step (Save_itr_params n c)"
  by (simp_all add: is_policy_step_def)

lemma quiet_no_checkpoint: "quiet e \<Longrightarrow> no_checkpoint e"
  by (simp add: quiet_def no_checkpoint_def)

lemma quiet_no_policy_step: "quiet e \<Longrightarrow> \<not> is_policy_step e"
  by (cases e) simp_all

lemma emits_quiet_policy_steps:
  assumes "emits quiet st st'"
  shows "policy_steps st' = policy_steps st"
proof -
  from assms obtain es where t: "trace st' = trace st @ es" and q: "list_all quiet es"
    by (auto simp: emits_def)
  from q have "filter is_policy_step es = []"
    by (induction es) (auto dest: quiet_no_policy_step)
  with t show ?thesis by (simp add: policy_steps_def)
qed

subsection \<open>The sample loop\<close>

lemma store_logprob_props:
  assumes "store_logprob lp st = (st', t)"
  shows "same_settings st st' \<and> emits quiet st st' \<and> pointer_net st' = pointer_net st
       \<and> value_net st' = value_net st"
  using assms by (auto simp: store_logprob_def emits_emit split: if_splits)

lemma train_sample_props:
  assumes "train_sample md tb i j acc st = (st', r)"
  shows "same_settings st st' \<and> emits quiet st st' \<and> pointer_net st' = pointer_net st
       \<and> value_net st' = value_net st"
proof -
  have q: "list_all quiet (Add_histogram l xs # map (\<lambda>(pos, d). Add_position_histogram pos d) ps)"
    for l xs and ps :: "(nat \<times> real list) list"
    by (induction ps) auto
  show ?thesis
    using assms
    by (auto simp: train_sample_def Let_def split: sum.splits prod.splits if_splits
        dest!: store_logprob_props
        intro: emits_emit_after [OF _ q] same_settings_emit_after)
qed

lemma train_samples_props:
  assumes "train_samples md tb i js acc st = (st', r)"
  shows "same_settings st st' \<and> emits quiet st st' \<and> pointer_net st' = pointer_net st
       \<and> value_net st' = value_net st"
  using assms
proof (induction js arbitrary: acc st)
  case Nil
  then show ?case by simp
next
  case (Cons j js)
  obtain st1 r1 where s: "train_sample md tb i j acc st = (st1, r1)"
    by (cases "train_sample md tb i j acc st")
  note P = train_sample_props [OF s]
  show ?case
  proof (cases r1)
    case (Inl e)
    with Cons.prems s P show ?thesis by simp
  next
    case (Inr acc1)
    with Cons.prems s have "train_samples md tb i js acc1 st1 = (st', r)" by simp
    from Cons.IH [OF this] P show ?thesis
      by (auto intro: emits_trans same_settings_trans)
  qed
qed

lemma policy_update_props:
  assumes "policy_update md loss st = (st', r)"
  shows "same_settings st st' \<and> value_net st' = value_net st
       \<and> (r = Inr () \<and> requires_grad loss
            \<and> trace st' = trace st @ [Policy_step (clip_grad_norm (max_grad_norm (cfg st)) (d_policy loss))]
            \<and> pointer_net st' = optim_step md (policy_lr st)
                  (clip_grad_norm (max_grad_norm (cfg st)) (d_policy loss)) (pointer_net st)
          \<or> r = Inl RuntimeError \<and> st' = st \<and> \<not> requires_grad loss)"
  using assms by (auto simp: policy_update_def Let_def same_settings_def split: if_splits)

lemma critic_update_props:
  assumes "critic_update md vals rs st = (st', r)"
  shows "same_settings st st' \<and> pointer_net st' = pointer_net st
       \<and> ((\<exists>cl. r = Inr cl \<and> mse_loss vals rs = Inr cl \<and> requires_grad cl
              \<and> trace st' = trace st @ [Value_step (clip_grad_norm (max_grad_norm (cfg st)) (d_value cl))]
              \<and> value_net st' = optim_step md (critic_net_lr (cfg st))
                    (clip_grad_norm (max_grad_norm (cfg st)) (d_value cl)) (value_net st))
          \<or> (\<exists>e. r = Inl e) \<and> st' = st)"
proof (cases "mse_loss vals rs")
  case (Inl e)
  with assms have "st' = st" and "r = Inl e" by (simp_all add: critic_update_def)
  then show ?thesis by simp
next
  case (Inr cl)
  with assms show ?thesis
    by (auto simp: critic_update_def Let_def same_settings_def split: if_splits)
qed

lemma critic_step_props:
  assumes "critic_step md vals rs st = (st', r)"
  shows "same_settings st st' \<and> pointer_net st' = pointer_net st
       \<and> (if baseline_type (cfg st) = ''net''
          then (\<exists>cl. r = Inr (Some cl) \<and> critic_update md vals rs st = (st', Inr cl))
               \<or> (\<exists>e. r = Inl e) \<and> st' = st
          else r = Inr None \<and> st' = st)"
proof (cases "baseline_type (cfg st) = ''net''")
  case False
  with assms show ?thesis by (simp add: critic_step_def)
next
  case True
  obtain s1 r1 where c: "critic_update md vals rs st = (s1, r1)"
    by (cases "critic_update md vals rs st")
  note P = critic_update_props [OF c]
  show ?thesis
  proof (cases r1)
    case (Inl e)
    with assms True c P show ?thesis by (auto simp: critic_step_def)
  next
    case (Inr cl)
    with assms True c P show ?thesis by (auto simp: critic_step_def)
  qed
qed
subsection \<open>One mini-batch\<close>

lemma emits_policy_step:
  assumes "trace st' = trace st @ [Policy_step g]"
  shows "emits no_checkpoint st st' \<and> policy_steps st' = Suc (policy_steps st)"
  using assms by (simp add: emits_def policy_steps_def)

lemma emits_value_step:
  assumes "trace st' = trace st @ [Value_step g]"
  shows "emits no_checkpoint st st' \<and> policy_steps st' = policy_steps st"
  using assms by (simp add: emits_def policy_steps_def)

lemma critic_step_trace:
  assumes "critic_step md vals rs st = (st', r)"
  shows "emits no_checkpoint st st' \<and> policy_steps st' = policy_steps st"
proof (cases "baseline_type (cfg st) = ''net''")
  case False
  with critic_step_props [OF assms] show ?thesis by simp
next
  case True
  with critic_step_props [OF assms]
  consider cl where "critic_update md vals rs st = (st', Inr cl)" | "st' = st"
    by auto
  then show ?thesis
  proof cases
    case 1
    from critic_update_props [OF 1] show ?thesis
      by (auto dest: emits_value_step)
  next
    case 2
    then show ?thesis by simp
  qed
qed

lemma minibatch_step_Inr:
  assumes "minibatch_step md rs acc pp st = (st', Inr mb)"
  shows "\<exists>adv loss st3 cl.
           neg_advantage_of st rs (sa_values acc) = Inr adv
         \<and> reinforce_loss_of adv (sa_logprobs acc) = Inr loss
         \<and> policy_update md loss st = (st3, Inr ())
         \<and> critic_step md (sa_values acc) rs st3 = (st', Inr cl)
         \<and> mb = \<lparr>mb_neg_advantage = adv, mb_logprobs = sa_logprobs acc,
                  mb_reinforce_loss = loss, mb_critic_loss = cl,
                  mb_neg_baseline_value = sa_values acc, mb_pointer_probs = pp\<rparr>"
proof (cases "neg_advantage_of st rs (sa_values acc)")
  case (Inl e)
  with assms show ?thesis by (simp add: minibatch_step_def lift_def)
next
  case adv: (Inr adv)
  show ?thesis
  proof (cases "reinforce_loss_of adv (sa_logprobs acc)")
    case (Inl e)
    with assms adv show ?thesis by (simp add: minibatch_step_def lift_def)
  next
    case loss: (Inr loss)
    obtain st3 r3 where pu: "policy_update md loss st = (st3, r3)"
      by (cases "policy_update md loss st")
    show ?thesis
    proof (cases r3)
      case (Inl e)
      with assms adv loss pu show ?thesis by (simp add: minibatch_step_def lift_def)
    next
      case (Inr u)
      obtain st4 r4 where cs: "critic_step md (sa_values acc) rs st3 = (st4, r4)"
        by (cases "critic_step md (sa_values acc) rs st3")
      show ?thesis
      proof (cases r4)
        case (Inl e)
        with assms adv loss pu Inr cs show ?thesis by (simp add: minibatch_step_def lift_def)
      next
        case cl: (Inr cl)
        with assms adv loss pu Inr cs show ?thesis
          by (auto simp: minibatch_step_def lift_def)
      qed
    qed
  qed
qed

lemma minibatch_step_props:
  assumes "minibatch_step md rs acc pp st = (st', r)"
  shows "same_settings st st' \<and> emits no_checkpoint st st'
       \<and> (\<forall>mb. r = Inr mb \<longrightarrow> policy_steps st' = Suc (policy_steps st))"
proof (cases "neg_advantage_of st rs (sa_values acc)")
  case (Inl e)
  with assms show ?thesis by (auto simp: minibatch_step_def lift_def)
next
  case adv: (Inr adv)
  show ?thesis
  proof (cases "reinforce_loss_of adv (sa_logprobs acc)")
    case (Inl e)
    with assms adv show ?thesis by (auto simp: minibatch_step_def lift_def)
  next
    case loss: (Inr loss)
    obtain st3 r3 where pu: "policy_update md loss st = (st3, r3)"
      by (cases "policy_update md loss st")
    note P = policy_update_props [OF pu]
    show ?thesis
    proof (cases r3)
      case (Inl e)
      with assms adv loss pu P show ?thesis by (auto simp: minibatch_step_def lift_def)
    next
      case (Inr u)
      with P have tr: "trace st3 = trace st @ [Policy_step (clip_grad_norm (max_grad_norm (cfg st)) (d_policy loss))]"
        and ss: "same_settings st st3" by auto
      note E = emits_policy_step [OF tr]
      obtain st4 r4 where cs: "critic_step md (sa_values acc) rs st3 = (st4, r4)"
        by (cases "critic_step md (sa_values acc) rs st3")
      note C = critic_step_props [OF cs] critic_step_trace [OF cs]
      have st4: "same_settings st st4 \<and> emits no_checkpoint st st4
          \<and> policy_steps st4 = Suc (policy_steps st)"
        using ss E C by (auto intro: same_settings_trans emits_trans)
      show ?thesis
      proof (cases r4)
        case (Inl e)
        with assms adv loss pu Inr cs st4 show ?thesis
          by (auto simp: minibatch_step_def lift_def)
      next
        case cl: (Inr cl)
        with assms adv loss pu Inr cs st4 show ?thesis
          by (auto simp: minibatch_step_def lift_def)
      qed
    qed
  qed
qed

lemma log_entropy_props:
  assumes "log_entropy acc st = (st', r)"
  shows "same_settings st st' \<and> emits quiet st st' \<and> pointer_net st' = pointer_net st
       \<and> value_net st' = value_net st
       \<and> (\<forall>pp. r = Inr pp \<longrightarrow> sa_probs acc = Some pp)"
  using assms
  by (auto simp: log_entropy_def emits_emit split: option.splits list.splits)

lemma train_minibatch_Inr:
  assumes "train_minibatch md tb epoch nloops i prev st = (st', Inr mb)"
  shows "\<exists>st1 acc st2 pp.
           0 \<le> loop_batch_size (tb_states tb) (batch_size (cfg st)) nloops i
         \<and> train_samples md tb i
              [0..<nat (loop_batch_size (tb_states tb) (batch_size (cfg st)) nloops i)]
              \<lparr>sa_logprobs = [], sa_values = [], sa_probs = map_option mb_pointer_probs prev\<rparr>
              (emit [Log (Msg_training epoch nloops)] st) = (st1, Inr acc)
         \<and> log_entropy acc st1 = (st2, Inr pp)
         \<and> minibatch_step md
              (from_numpy (minibatch_rewards (tb_neg_rewards tb) (batch_size (cfg st)) nloops i))
              acc pp st2 = (st', Inr mb)"
proof -
  let ?b = "loop_batch_size (tb_states tb) (batch_size (cfg st)) nloops i"
  let ?st0 = "emit [Log (Msg_training epoch nloops)] st"
  let ?acc0 = "\<lparr>sa_logprobs = [], sa_values = [], sa_probs = map_option mb_pointer_probs prev\<rparr>"
  have b: "0 \<le> ?b"
    using assms by (auto simp: train_minibatch_def Let_def split: if_splits)
  obtain st1 r1 where ts: "train_samples md tb i [0..<nat ?b] ?acc0 ?st0 = (st1, r1)"
    by (cases "train_samples md tb i [0..<nat ?b] ?acc0 ?st0")
  show ?thesis
  proof (cases r1)
    case (Inl e)
    with assms b ts show ?thesis by (simp add: train_minibatch_def Let_def)
  next
    case acc: (Inr acc)
    obtain st2 r2 where le: "log_entropy acc st1 = (st2, r2)"
      by (cases "log_entropy acc st1")
    show ?thesis
    proof (cases r2)
      case (Inl e)
      with assms b ts acc le show ?thesis by (simp add: train_minibatch_def Let_def)
    next
      case (Inr pp)
      with assms b ts acc le show ?thesis by (simp add: train_minibatch_def Let_def)
    qed
  qed
qed

lemma emits_quiet_no_checkpoint: "emits quiet a b \<Longrightarrow> emits no_checkpoint a b"
  by (erule emits_mono) (rule quiet_no_checkpoint)

lemma quiet_after:
  assumes "same_settings a b" and "emits no_checkpoint a b" and "policy_steps b = policy_steps a"
      and "same_settings b c" and "emits quiet b c"
  shows "same_settings a c \<and> emits no_checkpoint a c \<and> policy_steps c = policy_steps a"
  using same_settings_trans [OF assms(1) assms(4)]
    emits_trans [OF assms(2) emits_quiet_no_checkpoint [OF assms(5)]]
    emits_quiet_policy_steps [OF assms(5)] assms(3)
  by simp

lemma train_minibatch_props:
  assumes "train_minibatch md tb epoch nloops i prev st = (st', r)"
  shows "same_settings st st' \<and> emits no_checkpoint st st'
       \<and> (\<forall>mb. r = Inr mb \<longrightarrow> policy_steps st' = Suc (policy_steps st))"
proof -
  let ?b = "loop_batch_size (tb_states tb) (batch_size (cfg st)) nloops i"
  let ?st0 = "emit [Log (Msg_training epoch nloops)] st"
  let ?acc0 = "\<lparr>sa_logprobs = [], sa_values = [], sa_probs = map_option mb_pointer_probs prev\<rparr>"
  have e0: "emits quiet st ?st0" by (simp add: emits_emit)
  have s0: "same_settings st ?st0" by simp
  have st0: "same_settings st ?st0 \<and> emits no_checkpoint st ?st0
      \<and> policy_steps ?st0 = policy_steps st"
    by (rule quiet_after [OF same_settings_refl emits_refl refl s0 e0])
  show ?thesis
  proof (cases "?b < 0")
    case True
    with assms have "st' = ?st0" and "r = Inl RuntimeError"
      by (simp_all add: train_minibatch_def Let_def)
    with st0 show ?thesis by simp
  next
    case False
    obtain st1 r1 where ts: "train_samples md tb i [0..<nat ?b] ?acc0 ?st0 = (st1, r1)"
      by (cases "train_samples md tb i [0..<nat ?b] ?acc0 ?st0")
    note T = train_samples_props [OF ts]
    have st1: "same_settings st st1 \<and> emits no_checkpoint st st1
        \<and> policy_steps st1 = policy_steps st"
      using st0 T by (intro quiet_after [where b = ?st0]) simp_all
    show ?thesis
    proof (cases r1)
      case (Inl e)
      with assms False ts have "st' = st1" and "r = Inl e"
        by (simp_all add: train_minibatch_def Let_def)
      with st1 show ?thesis by simp
    next
      case acc: (Inr acc)
      obtain st2 r2 where le: "log_entropy acc st1 = (st2, r2)"
        by (cases "log_entropy acc st1")
      note L = log_entropy_props [OF le]
      have st2: "same_settings st st2 \<and> emits no_checkpoint st st2
          \<and> policy_steps st2 = policy_steps st"
        using st1 L by (intro quiet_after [where b = st1]) simp_all
      show ?thesis
      proof (cases r2)
        case (Inl e)
        with assms False ts acc le have "st' = st2" and "r = Inl e"
          by (simp_all add: train_minibatch_def Let_def)
        with st2 show ?thesis by simp
      next
        case (Inr pp)
        with assms False ts acc le
        have ms: "minibatch_step md
              (from_numpy (minibatch_rewards (tb_neg_rewards tb) (batch_size (cfg st)) nloops i))
              acc pp st2 = (st', r)"
          by (simp add: train_minibatch_def Let_def)
        note M = minibatch_step_props [OF ms]
        from M st2 have "same_settings st st'" "emits no_checkpoint st st'"
          by (blast intro: same_settings_trans emits_trans)+
        moreover have "\<forall>mb. r = Inr mb \<longrightarrow> policy_steps st' = Suc (policy_steps st)"
          using M st2 by simp
        ultimately show ?thesis by simp
      qed
    qed
  qed
qed

lemma train_loops_props:
  assumes "train_loops md tb epoch nloops js prev st = (st', r)"
  shows "same_settings st st' \<and> emits no_checkpoint st st'
       \<and> (\<forall>f. r = Inr f \<longrightarrow> policy_steps st' = policy_steps st + length js
                \<and> (js \<noteq> [] \<longrightarrow> f \<noteq> None) \<and> (js = [] \<longrightarrow> f = prev))"
  using assms
proof (induction js arbitrary: prev st)
  case Nil
  then show ?case by auto
next
  case (Cons j js)
  obtain st1 r1 where m: "train_minibatch md tb epoch nloops (int j) prev st = (st1, r1)"
    by (cases "train_minibatch md tb epoch nloops (int j) prev st")
  note P = train_minibatch_props [OF m]
  show ?case
  proof (cases r1)
    case (Inl e)
    with Cons.prems m P show ?thesis by auto
  next
    case (Inr mb)
    with Cons.prems m have "train_loops md tb epoch nloops js (Some mb) st1 = (st', r)" by simp
    from Cons.IH [OF this] P Inr show ?thesis
      by (auto intro: emits_trans same_settings_trans)
  qed
qed
subsection \<open>The statements around the loop\<close>

lemma then_do_Inr_iff:
  "then_do m f = (st', Inr y) \<longleftrightarrow> (\<exists>s x. m = (s, Inr x) \<and> f x s = (st', Inr y))"
  by (auto simp: then_do_def split: prod.splits sum.splits)

lemma update_baseline_props:
  assumes "update_baseline epoch nr st = (st', r)"
  shows "cfg st' = cfg st \<and> trace st' = trace st \<and> pointer_net st' = pointer_net st
       \<and> value_net st' = value_net st \<and> policy_sched st' = policy_sched st
       \<and> mean_std st' = mean_std st
       \<and> (baseline_type (cfg st) \<noteq> ''simple'' \<longrightarrow> st' = st \<and> r = Inr ())
       \<and> (baseline_type (cfg st) = ''simple'' \<longrightarrow> r = Inr () \<longrightarrow>
            critic_exp_mvg_avg st' =
              Some (if epoch = 1 then np_mean nr
                    else the (critic_exp_mvg_avg st) * critic_beta (cfg st)
                         + (1 - critic_beta (cfg st)) * np_mean nr))"
  using assms by (auto simp: update_baseline_def split: if_splits option.splits)

lemma lr_update_props:
  assumes "lr_update epoch st = (st', r)"
  shows "cfg st' = cfg st \<and> critic_exp_mvg_avg st' = critic_exp_mvg_avg st
       \<and> pointer_net st' = pointer_net st \<and> value_net st' = value_net st
       \<and> mean_std st' = mean_std st \<and> emits quiet st st'"
  using assms
  by (auto simp: lr_update_def Let_def emits_def split: if_splits option.splits)

lemma save_checkpoint_props:
  assumes "save_checkpoint epoch st = (st', r)"
  shows "same_settings st st' \<and> pointer_net st' = pointer_net st \<and> value_net st' = value_net st
       \<and> (r = Inr ()
            \<and> trace st' = trace st @
                 [Save_itr_params epoch
                    ((''pointer_net'', Weights (pointer_net st))
                     # (if normalize (cfg st)
                        then [(''mean'', Vector (rms_mean (the (mean_std st)))),
                              (''std'', Vector (rms_std (the (mean_std st)))),
                              (''epsilon'', Scalar (rms_epsilon (the (mean_std st))))]
                        else []))]
          \<or> r = Inl AttributeError \<and> st' = st)"
  using assms
  by (auto simp: save_checkpoint_def split: if_splits option.splits)

lemma log_features_props:
  assumes "log_features states js st = (st', r)"
  shows "same_settings st st' \<and> pointer_net st' = pointer_net st \<and> value_net st' = value_net st
       \<and> emits quiet st st'"
  using assms
proof (induction js arbitrary: st)
  case Nil
  then show ?case by simp
next
  case (Cons j js)
  show ?case
  proof (cases "\<exists>s \<in> set states. ncols s \<le> j")
    case True
    with Cons.prems show ?thesis by simp
  next
    case False
    let ?st1 = "emit [Record_feature ''feature'' (j + 1)
                      (concat (map (\<lambda>s. np_column s j) states))] st"
    from Cons.prems False have "log_features states js ?st1 = (st', r)" by simp
    from Cons.IH [OF this] show ?thesis
      by (auto simp: same_settings_def emits_def)
  qed
qed

lemma log_training_props:
  assumes "log_training tb epoch fm st = (st', r)"
  shows "same_settings st st' \<and> pointer_net st' = pointer_net st \<and> value_net st' = value_net st
       \<and> emits quiet st st'
       \<and> (\<forall>u. r = Inr u \<longrightarrow> critic_exp_mvg_avg st \<noteq> None \<and> fm \<noteq> None)"
proof -
  let ?st1 = "emit [Add_histogram ''neg_rewards'' (elems (tb_neg_rewards tb)),
                      Record_tabular ''Epoch'' (real_of_int epoch),
                      Record_dict ''training/Neg Reward'' (elems (tb_neg_rewards tb))] st"
  have q1: "same_settings st ?st1 \<and> pointer_net ?st1 = pointer_net st
      \<and> value_net ?st1 = value_net st \<and> emits quiet st ?st1"
    by (simp add: emits_emit)
  show ?thesis
  proof (cases fm)
    case None
    with assms have "st' = ?st1" "r = Inl UnboundLocalError"
      by (simp_all add: log_training_def Let_def)
    with q1 show ?thesis by simp
  next
    case (Some mb)
    let ?st2 = "emit [Record_tabular ''training/Neg Advantage''
                               (list_mean (map item (mb_neg_advantage mb))),
                             Record_dict ''training/logprobs'' (map item (mb_logprobs mb)),
                             Record_tabular ''training/reinforce loss''
                               (item (mb_reinforce_loss mb))] ?st1"
    have q2: "same_settings st ?st2 \<and> pointer_net ?st2 = pointer_net st
        \<and> value_net ?st2 = value_net st \<and> emits quiet st ?st2"
      by (simp add: emits_def same_settings_def)
    show ?thesis
    proof (cases "critic_exp_mvg_avg st")
      case None
      with assms Some have "st' = ?st2" "r = Inl AttributeError"
        by (simp_all add: log_training_def Let_def)
      with q2 show ?thesis by simp
    next
      case ema: (Some ema)
      let ?st3 = "emit [Record_tabular ''training/Critic Value'' ema] ?st2"
      have q3: "same_settings st ?st3 \<and> pointer_net ?st3 = pointer_net st
          \<and> value_net ?st3 = value_net st \<and> emits quiet st ?st3"
        by (simp add: emits_def same_settings_def)
      let ?m = "if baseline_type (cfg ?st3) = ''net'' then
                            (case mb_critic_loss mb of
                               None \<Rightarrow> (?st3, Inl UnboundLocalError)
                             | Some critic_loss \<Rightarrow>
                                 (emit [Record_tabular ''training/Critic Loss'' (item critic_loss),
                                        Record_tabular ''training/Critic Value''
                                          (list_mean (map item (mb_neg_baseline_value mb)))] ?st3,
                                  Inr ()))
                          else (?st3, Inr ())"
      obtain st4 r4 where m: "?m = (st4, r4)" by (cases ?m)
      have q4: "same_settings st st4 \<and> pointer_net st4 = pointer_net st
          \<and> value_net st4 = value_net st \<and> emits quiet st st4"
        using m by (auto simp: emits_def same_settings_def split: if_splits option.splits)
      let ?f = "\<lambda>(_::unit) st4.
                            let st5 = emit [Record_dict ''training/len cuts''
                                              (map (real \<circ> nrows) (tb_states tb))] st4
                            in case tb_states tb of
                                 [] \<Rightarrow> (st5, Inl IndexError)
                               | s0 # _ \<Rightarrow>
                                   then_do (log_features (tb_states tb) [0..<ncols s0] st5)
                                     (\<lambda>_ st6.
                                        (emit [Record_dict ''training/sel cuts num''
                                                 (map real_of_int (tb_sel_cuts_nums tb)),
                                               Record_dicts
                                                 (map (\<lambda>(k, vs). (''training/'' @ k, vs))
                                                      (tb_step_infos tb))] st6,
                                         Inr ()))"
      from assms Some ema have eq: "then_do ?m ?f = (st', r)"
        by (simp add: log_training_def Let_def)
      show ?thesis
      proof (cases r4)
        case (Inl e)
        with eq m have "st' = st4" by simp
        with q4 eq m Inl show ?thesis by auto
      next
        case (Inr u)
        let ?st5 = "emit [Record_dict ''training/len cuts''
                                              (map (real \<circ> nrows) (tb_states tb))] st4"
        have q5: "same_settings st ?st5 \<and> pointer_net ?st5 = pointer_net st
            \<and> value_net ?st5 = value_net st \<and> emits quiet st ?st5"
          using q4 by (auto simp: emits_def same_settings_def)
        show ?thesis
        proof (cases "tb_states tb")
          case Nil
          with eq m Inr have "st' = ?st5" "r = Inl IndexError" by (simp_all add: Let_def)
          with q5 show ?thesis by simp
        next
          case (Cons s0 rest)
          obtain st6 r6 where lf: "log_features (tb_states tb) [0..<ncols s0] ?st5 = (st6, r6)"
            by (cases "log_features (tb_states tb) [0..<ncols s0] ?st5")
          note F = log_features_props [OF lf]
          have q6: "same_settings st st6 \<and> pointer_net st6 = pointer_net st
              \<and> value_net st6 = value_net st \<and> emits quiet st st6"
            using q5 F by (auto intro: same_settings_trans emits_trans)
          show ?thesis
          proof (cases r6)
            case (Inl e)
            with eq m Inr Cons lf have "st' = st6" "r = Inl e" by (simp_all add: Let_def)
            with q6 show ?thesis by simp
          next
            case u6: (Inr u6)
            with eq m Inr Cons lf have
              "st' = emit [Record_dict ''training/sel cuts num''
                                                 (map real_of_int (tb_sel_cuts_nums tb)),
                                               Record_dicts
                                                 (map (\<lambda>(k, vs). (''training/'' @ k, vs))
                                                      (tb_step_infos tb))] st6"
              by (simp add: Let_def)
            with q6 Some ema show ?thesis by (auto simp: emits_def same_settings_def)
          qed
        qed
      qed
    qed
  qed
qed

lemma train_with_Inr:
  assumes "train_with save md raw epoch st = (st', Inr u)"
  shows "\<exists>tb st1 tl st3 fm st4 st5 st6.
           process_data md raw st = (st1, Inr tb)
         \<and> compute_train_loop (length (tb_states tb)) (batch_size (cfg st1)) = Inr tl
         \<and> update_baseline epoch (tb_neg_rewards tb) st1 = (st3, Inr ())
         \<and> train_loops md tb epoch tl [0..<nat tl] None st3 = (st4, Inr fm)
         \<and> lr_update epoch st4 = (st5, Inr ())
         \<and> save epoch st5 = (st6, Inr ())
         \<and> log_training tb epoch fm st6 = (st', Inr u)"
  using assms unfolding train_with_def
  by (auto simp: then_do_Inr_iff lift_def)

lemma process_data_props:
  assumes "process_data md raw st = (st', r)"
  shows "cfg st' = cfg st \<and> critic_exp_mvg_avg st' = critic_exp_mvg_avg st
       \<and> pointer_net st' = pointer_net st \<and> value_net st' = value_net st
       \<and> policy_sched st' = policy_sched st \<and> emits quiet st st'"
proof -
  let ?rs = "concat (map (ds_neg_reward \<circ> res_low) raw)"
  let ?states = "concat (map (ds_state \<circ> res_low) raw)"
  obtain st1 r1 where pr: "process_rewards ?rs st = (st1, r1)"
    by (cases "process_rewards ?rs st")
  from process_rewards_result [OF pr] have P: "cfg st1 = cfg st"
    "critic_exp_mvg_avg st1 = critic_exp_mvg_avg st" "pointer_net st1 = pointer_net st"
    "value_net st1 = value_net st" "policy_sched st1 = policy_sched st"
    and "\<exists>es. trace st1 = trace st @ es \<and> (\<forall>e \<in> set es. \<exists>l xs. e = Record_dict l xs)"
    by simp_all
  then have q1: "emits quiet st st1"
    by (fastforce simp: emits_def list_all_iff)
  have k1: "cfg st1 = cfg st \<and> critic_exp_mvg_avg st1 = critic_exp_mvg_avg st
       \<and> pointer_net st1 = pointer_net st \<and> value_net st1 = value_net st
       \<and> policy_sched st1 = policy_sched st \<and> emits quiet st st1"
    using P q1 by simp
  show ?thesis
  proof (cases r1)
    case (Inl e)
    with assms pr have "st' = st1" by (simp add: process_data_unfold)
    with k1 show ?thesis by simp
  next
    case nr: (Inr nr)
    show ?thesis
    proof (cases "merge_step_infos (map res_info raw)")
      case (Inl e)
      with assms pr nr have "st' = st1" by (simp add: process_data_unfold)
      with k1 show ?thesis by simp
    next
      case mi: (Inr infos)
      obtain st2 r2 where ps: "process_states md ?states st1 = (st2, r2)"
        by (cases "process_states md ?states st1")
      from process_states_result [OF ps] have R: "cfg st2 = cfg st1"
        "critic_exp_mvg_avg st2 = critic_exp_mvg_avg st1" "pointer_net st2 = pointer_net st1"
        "value_net st2 = value_net st1" "policy_sched st2 = policy_sched st1"
        and "\<exists>es. trace st2 = trace st1 @ es
               \<and> (\<forall>e \<in> set es. (\<exists>k xs. e = Record_feature ''non-normalize'' k xs)
                                 \<or> e = Log Msg_normalizing)"
        by simp_all
      then have q2: "emits quiet st1 st2"
        by (fastforce simp: emits_def list_all_iff)
      have st': "st' = st2"
        using assms pr nr mi ps by (cases r2) (simp_all add: process_data_unfold)
      show ?thesis
        using k1 R emits_trans [OF q1 q2] by (simp add: st')
    qed
  qed
qed
subsection \<open>Configuration errors\<close>




lemma foo_cfg [simp]:
  "cfg (toy_trainer foo_config) = foo_config"
  "baseline_type foo_config = ''foo''"
  "batch_size foo_config = 32"
  "reward_scale foo_config = 1"
  "normalize_reward foo_config"
  "\<not> normalize foo_config"
  "max_grad_norm foo_config = 2"
  "pointer_net (toy_trainer foo_config) = 1"
  "value_net (toy_trainer foo_config) = 1"
  "critic_exp_mvg_avg (toy_trainer foo_config) = None"
  "trace (toy_trainer foo_config) = []"
  by (simp_all add: toy_trainer_def foo_config_def default_config_def)





subsection \<open>What the sample loop stores\<close>





subsection \<open>The loop over mini-batches\<close>

lemma train_loops_chain:
  assumes "train_loops md tb epoch nloops js prev st = (st', Inr fm)"
  shows "\<exists>ss mbs.
           length ss = Suc (length js) \<and> length mbs = length js
         \<and> ss ! 0 = st \<and> ss ! length js = st'
         \<and> fm = (if js = [] then prev else Some (last mbs))
         \<and> (\<forall>k < length js.
               train_minibatch md tb epoch nloops (int (js ! k))
                 (if k = 0 then prev else Some (mbs ! (k - 1))) (ss ! k)
               = (ss ! Suc k, Inr (mbs ! k)))
         \<and> (\<forall>k \<le> length js. same_settings st (ss ! k))"
  using assms
proof (induction js arbitrary: prev st)
  case Nil
  then show ?case
    by (intro exI [of _ "[st]"] exI [of _ "[]"]) simp
next
  case (Cons j js)
  obtain st1 r1 where m: "train_minibatch md tb epoch nloops (int j) prev st = (st1, r1)"
    by (cases "train_minibatch md tb epoch nloops (int j) prev st")
  show ?case
  proof (cases r1)
    case (Inl e)
    with Cons.prems m show ?thesis by simp
  next
    case (Inr mb)
    with m have m1: "train_minibatch md tb epoch nloops (int j) prev st = (st1, Inr mb)"
      by simp
    with Cons.prems have rest: "train_loops md tb epoch nloops js (Some mb) st1 = (st', Inr fm)"
      by simp
    from train_minibatch_props [OF m1] have s1: "same_settings st st1" by simp
    from Cons.IH [OF rest] obtain ss mbs where
      len: "length ss = Suc (length js)" "length mbs = length js"
      and ends: "ss ! 0 = st1" "ss ! length js = st'"
      and fm: "fm = (if js = [] then Some mb else Some (last mbs))"
      and each: "\<forall>k < length js.
               train_minibatch md tb epoch nloops (int (js ! k))
                 (if k = 0 then Some mb else Some (mbs ! (k - 1))) (ss ! k)
               = (ss ! Suc k, Inr (mbs ! k))"
      and same: "\<forall>k \<le> length js. same_settings st1 (ss ! k)"
      by blast
    let ?ss = "st # ss" and ?mbs = "mb # mbs"
    let ?Q = "\<lambda>k. train_minibatch md tb epoch nloops (int ((j # js) ! k))
                 (if k = 0 then prev else Some (?mbs ! (k - 1))) (?ss ! k)
               = (?ss ! Suc k, Inr (?mbs ! k))"
    have Q0: "?Q 0" using m1 ends by simp
    have QS: "?Q (Suc k)" if "k < length js" for k
    proof -
      have eq: "(if k = 0 then Some mb else Some (mbs ! (k - 1))) = Some (?mbs ! k)"
        by (cases k) simp_all
      from each that have
        "train_minibatch md tb epoch nloops (int (js ! k))
           (if k = 0 then Some mb else Some (mbs ! (k - 1))) (ss ! k)
         = (ss ! Suc k, Inr (mbs ! k))"
        by blast
      then show ?thesis unfolding eq by simp
    qed
    have allQ: "\<forall>k < length (j # js). ?Q k"
    proof (intro allI impI)
      fix k assume "k < length (j # js)"
      then show "?Q k" using Q0 QS by (cases k) simp_all
    qed
    have allS: "\<forall>k \<le> length (j # js). same_settings st (?ss ! k)"
    proof (intro allI impI)
      fix k assume k: "k \<le> length (j # js)"
      show "same_settings st (?ss ! k)"
      proof (cases k)
        case 0
        then show ?thesis by simp
      next
        case (Suc k')
        with k same have "same_settings st1 (ss ! k')" by simp
        with s1 Suc show ?thesis by (simp add: same_settings_trans)
      qed
    qed
    have f: "fm = (if j # js = [] then prev else Some (last ?mbs))"
      using fm len by (cases mbs) auto
    show ?thesis
      apply (rule exI [of _ ?ss])
      apply (rule exI [of _ ?mbs])
      using len ends f allQ allS by simp
  qed
qed



subsection \<open>The partition into mini-batches, in \<open>train\<close>\<close>




subsection \<open>Runs on the example collaborators\<close>

lemmas toy_run_simps =
  train_def train_with_def lift_def Let_def compute_train_loop_def update_baseline_def
  train_minibatch_def loop_batch_size_def py_slice_from_def train_sample_def
  py_getitem_def toy_models_def store_logprob_def net_output_def toy_state_def
  log_entropy_def minibatch_step_def neg_advantage_of_def reinforce_loss_of_def
  broadcast2_def t_mul_def t_mean_def t_sub_def t_const_def from_numpy_def
  minibatch_rewards_def np_rows_def np_rows_from_def py_index_def policy_update_def
  critic_step_def lr_update_def save_checkpoint_def log_training_def np_mean_def
  list_mean_def int_of_quotient_def clip_grad_norm_def policy_lr_def step_lr_def
  detach_def emit_def toy_trainer_def





subsection \<open>The moving average of the \<open>simple\<close> baseline\<close>

lemma processed_mean:
  assumes "process_data md raw st = (st1, Inr tb)"
  shows "np_mean (tb_neg_rewards tb) =
     (if normalize_reward (cfg st) then 0
      else list_mean (map (\<lambda>x. reward_scale (cfg st) * x)
                        (concat (map (ds_neg_reward \<circ> res_low) raw))))"
proof -
  let ?rs = "concat (map (ds_neg_reward \<circ> res_low) raw)"
  let ?scaled = "map (\<lambda>x. reward_scale (cfg st) * x) ?rs"
  from process_data_result [OF assms] obtain s0 where
    pr: "process_rewards ?rs st = (s0, Inr (tb_neg_rewards tb))"
    by blast
  from process_rewards_result [OF pr] have ne: "?rs \<noteq> []" by simp
  define scaled where "scaled = map (\<lambda>x. reward_scale (cfg st) * x) ?rs"
  have ne': "scaled \<noteq> []" using ne by (simp add: scaled_def)
  have eq: "process_rewards ?rs st =
      (if normalize_reward (cfg st) then
         (emit [Record_dict ''training/Nonnormalize Neg Reward'' scaled] st,
          Inr \<lparr>nrows = length ?rs, ncols = 1,
               elems = map (\<lambda>x. (x - list_mean scaled) / (list_std scaled + 1 / 1000)) scaled\<rparr>)
       else (st, Inr \<lparr>nrows = length ?rs, ncols = 1, elems = scaled\<rparr>))"
    using process_rewards_eq [OF ne, of st] by (simp only: Let_def scaled_def)
  show ?thesis
  proof (cases "normalize_reward (cfg st)")
    case True
    with pr eq have "tb_neg_rewards tb = \<lparr>nrows = length ?rs, ncols = 1,
               elems = map (\<lambda>x. (x - list_mean scaled) / (list_std scaled + 1 / 1000)) scaled\<rparr>"
      by simp
    then have "elems (tb_neg_rewards tb)
        = map (\<lambda>x. (x - list_mean scaled) / (list_std scaled + 1 / 1000)) scaled"
      by simp
    then have "np_mean (tb_neg_rewards tb) = 0"
      using list_mean_normalized [OF ne', of "list_std scaled + 1 / 1000"]
      by (simp only: np_mean_def)
    with True show ?thesis by simp
  next
    case False
    with pr eq have "tb_neg_rewards tb = \<lparr>nrows = length ?rs, ncols = 1, elems = scaled\<rparr>"
      by simp
    then have "elems (tb_neg_rewards tb) = scaled" by simp
    then have "np_mean (tb_neg_rewards tb) = list_mean scaled" by (simp only: np_mean_def)
    with False show ?thesis by (simp add: scaled_def)
  qed
qed

lemma train_minibatch_simple:
  assumes ret: "train_minibatch md tb epoch nloops i prev st = (st', Inr mb)"
      and simple: "baseline_type (cfg st) = ''simple''"
      and ema: "critic_exp_mvg_avg st = Some new"
  shows "mb_neg_advantage mb =
     map (\<lambda>r. t_sub r (t_const new))
       (from_numpy (minibatch_rewards (tb_neg_rewards tb) (batch_size (cfg st)) nloops i))"
proof -
  let ?rs = "from_numpy (minibatch_rewards (tb_neg_rewards tb) (batch_size (cfg st)) nloops i)"
  from train_minibatch_Inr [OF ret] obtain st1 acc st2 pp where
    ts: "train_samples md tb i
              [0..<nat (loop_batch_size (tb_states tb) (batch_size (cfg st)) nloops i)]
              \<lparr>sa_logprobs = [], sa_values = [], sa_probs = map_option mb_pointer_probs prev\<rparr>
              (emit [Log (Msg_training epoch nloops)] st) = (st1, Inr acc)"
    and le: "log_entropy acc st1 = (st2, Inr pp)"
    and ms: "minibatch_step md ?rs acc pp st2 = (st', Inr mb)"
    by blast
  from train_samples_props [OF ts] log_entropy_props [OF le]
  have c: "cfg st2 = cfg st" and e: "critic_exp_mvg_avg st2 = critic_exp_mvg_avg st"
    by (simp_all add: same_settings_def)
  from minibatch_step_Inr [OF ms] obtain adv where
    adv: "neg_advantage_of st2 ?rs (sa_values acc) = Inr adv" and mb: "mb_neg_advantage mb = adv"
    by auto
  from adv c e simple ema have "adv = map (\<lambda>r. t_sub r (t_const new)) ?rs"
    by (simp add: neg_advantage_of_def)
  with mb show ?thesis by simp
qed

lemma train_ema_kept:
  assumes pd: "process_data md raw st = (st1, Inr tb)"
      and nl: "compute_train_loop (length (tb_states tb)) (batch_size (cfg st1)) = Inr nl"
      and ub: "update_baseline epoch (tb_neg_rewards tb) st1 = (st3, Inr ())"
  shows "critic_exp_mvg_avg (fst (train md raw epoch st)) = critic_exp_mvg_avg st3"
proof -
  let ?R = "\<lambda>a b. critic_exp_mvg_avg b = critic_exp_mvg_avg a"
  let ?after_save = "\<lambda>fm (_::unit) st6. log_training tb epoch fm st6"
  let ?after_lr = "\<lambda>fm (_::unit) st5. then_do (save_checkpoint epoch st5) (?after_save fm)"
  let ?after_loop = "\<lambda>fm st4. then_do (lr_update epoch st4) (?after_lr fm)"
  have eq: "train md raw epoch st
      = then_do (train_loops md tb epoch nl [0..<nat nl] None st3) ?after_loop"
    by (simp add: train_def train_with_def pd nl ub lift_def)
  have tr: "?R a b \<Longrightarrow> ?R b c \<Longrightarrow> ?R a c" for a b c :: "('a, 'b, 'c) trainer_scheme"
    by simp
  have save: "?R s (fst (then_do (save_checkpoint epoch s) (?after_save fm)))" for s fm
  proof (rule then_do_rel [where R = ?R])
    show "?R s (fst (save_checkpoint epoch s))"
      using save_checkpoint_props [where epoch = epoch and st = s, OF surjective_pairing]
      by (simp add: same_settings_def)
    show "?R s' (fst (log_training tb epoch fm s'))" for s'
      using log_training_props [where tb = tb and epoch = epoch and fm = fm and st = s', OF surjective_pairing]
      by (simp add: same_settings_def)
  qed simp
  have lr: "?R s (fst (then_do (lr_update epoch s) (?after_lr fm)))" for s fm
  proof (rule then_do_rel [where R = ?R])
    show "?R s (fst (lr_update epoch s))"
      using lr_update_props [where epoch = epoch and st = s, OF surjective_pairing] by simp
    show "?R s' (fst (then_do (save_checkpoint epoch s') (?after_save fm)))" for s'
      by (rule save)
  qed simp
  have "?R st3 (fst (then_do (train_loops md tb epoch nl [0..<nat nl] None st3) ?after_loop))"
  proof (rule then_do_rel [where R = ?R])
    show "?R st3 (fst (train_loops md tb epoch nl [0..<nat nl] None st3))"
      using train_loops_props [where md = md and tb = tb and epoch = epoch and nloops = nl
          and js = "[0..<nat nl]" and prev = None and st = st3, OF surjective_pairing]
      by (simp add: same_settings_def)
    show "?R s' (fst (then_do (lr_update epoch s') (?after_lr fm)))" for s' fm
      by (rule lr)
  qed simp
  with eq show ?thesis by simp
qed

text \<open>
  Claim C1, as the code has it. Let \<open>train\<close> return on a trainer with the \<open>simple\<close>
  baseline. The moving average is assigned once, after \<open>_process_data\<close> and before the
  first mini-batch: at epoch \<open>1\<close> it becomes the mean of the processed rewards, at any
  other epoch \<open>ema * \<beta> + (1 - \<beta>) * mean\<close>. Every mini-batch of the call starts with
  this value and subtracts it from its rewards, and the trainer still holds it when
  \<open>train\<close> returns. The mean is the one of the rewards that \<open>_process_data\<close> returns:
  the mean of \<open>reward_scale * reward\<close> without reward normalisation, and \<open>0\<close> with it.
\<close>

theorem train_simple_baseline:
  assumes simple: "baseline_type (cfg st) = ''simple''"
      and pd: "process_data md raw_results st = (st1, Inr tb)"
      and ret: "train md raw_results epoch st = (st', Inr ())"
  shows "\<exists>new loops ss mbs.
           (if epoch = 1 then new = np_mean (tb_neg_rewards tb)
            else \<exists>ema. critic_exp_mvg_avg st = Some ema
                   \<and> new = ema * critic_beta (cfg st)
                           + (1 - critic_beta (cfg st)) * np_mean (tb_neg_rewards tb))
         \<and> np_mean (tb_neg_rewards tb) =
             (if normalize_reward (cfg st) then 0
              else list_mean (map (\<lambda>x. reward_scale (cfg st) * x)
                                (concat (map (ds_neg_reward \<circ> res_low) raw_results))))
         \<and> compute_train_loop (length (tb_states tb)) (batch_size (cfg st)) = Inr loops
         \<and> length mbs = nat loops \<and> length ss = nat loops + 1
         \<and> update_baseline epoch (tb_neg_rewards tb) st1 = (ss ! 0, Inr ())
         \<and> (\<forall>i \<le> nat loops. critic_exp_mvg_avg (ss ! i) = Some new)
         \<and> (\<forall>i < nat loops.
               train_minibatch md tb epoch loops (int i)
                 (if i = 0 then None else Some (mbs ! (i - 1))) (ss ! i)
               = (ss ! Suc i, Inr (mbs ! i))
             \<and> mb_neg_advantage (mbs ! i) =
                 map (\<lambda>r. t_sub r (t_const new))
                   (from_numpy (minibatch_rewards (tb_neg_rewards tb) (batch_size (cfg st))
                                  loops (int i))))
         \<and> critic_exp_mvg_avg st' = Some new"
proof -
  let ?m = "np_mean (tb_neg_rewards tb)"
  let ?new = "if epoch = 1 then ?m
              else the (critic_exp_mvg_avg st) * critic_beta (cfg st)
                   + (1 - critic_beta (cfg st)) * ?m"
  from ret have "train_with save_checkpoint md raw_results epoch st = (st', Inr ())"
    by (simp add: train_def)
  from train_with_Inr [OF this] pd obtain nl st3 fm st4 where
    nl: "compute_train_loop (length (tb_states tb)) (batch_size (cfg st1)) = Inr nl"
    and ub: "update_baseline epoch (tb_neg_rewards tb) st1 = (st3, Inr ())"
    and loops: "train_loops md tb epoch nl [0..<nat nl] None st3 = (st4, Inr fm)"
    by auto
  note PD = process_data_props [OF pd]
  note UB = update_baseline_props [OF ub]
  from PD have c1: "cfg st1 = cfg st" and e1: "critic_exp_mvg_avg st1 = critic_exp_mvg_avg st"
    by simp_all
  from UB c1 have c3: "cfg st3 = cfg st" by simp
  from UB simple c1 e1 have e3: "critic_exp_mvg_avg st3 = Some ?new" by simp
  have old: "\<exists>ema. critic_exp_mvg_avg st = Some ema" if "epoch \<noteq> 1"
    using ub that simple c1 e1
    by (auto simp: update_baseline_def split: option.splits)
  have rule: "if epoch = 1 then ?new = ?m
            else \<exists>ema. critic_exp_mvg_avg st = Some ema
                   \<and> ?new = ema * critic_beta (cfg st) + (1 - critic_beta (cfg st)) * ?m"
    using old by auto
  from train_loops_chain [OF loops] obtain ss mbs where
    len: "length ss = Suc (nat nl)" "length mbs = nat nl"
    and first: "ss ! 0 = st3"
    and each: "\<forall>k < nat nl.
               train_minibatch md tb epoch nl (int ([0..<nat nl] ! k))
                 (if k = 0 then None else Some (mbs ! (k - 1))) (ss ! k)
               = (ss ! Suc k, Inr (mbs ! k))"
    and same: "\<forall>k \<le> nat nl. same_settings st3 (ss ! k)"
    by auto
  have keep: "critic_exp_mvg_avg (ss ! i) = Some ?new \<and> cfg (ss ! i) = cfg st"
    if "i \<le> nat nl" for i
    using same that e3 c3 by (simp add: same_settings_def)
  have loop: "train_minibatch md tb epoch nl (int i)
                 (if i = 0 then None else Some (mbs ! (i - 1))) (ss ! i)
               = (ss ! Suc i, Inr (mbs ! i))
             \<and> mb_neg_advantage (mbs ! i) =
                 map (\<lambda>r. t_sub r (t_const ?new))
                   (from_numpy (minibatch_rewards (tb_neg_rewards tb) (batch_size (cfg st))
                                  nl (int i)))"
    if i: "i < nat nl" for i
  proof -
    from each i have run: "train_minibatch md tb epoch nl (int i)
                 (if i = 0 then None else Some (mbs ! (i - 1))) (ss ! i)
               = (ss ! Suc i, Inr (mbs ! i))"
      by simp
    from keep [of i] i have k: "critic_exp_mvg_avg (ss ! i) = Some ?new" "cfg (ss ! i) = cfg st"
      by simp_all
    from train_minibatch_simple [OF run _ k(1)] k(2) simple run show ?thesis by simp
  qed
  from train_ema_kept [OF pd nl ub] ret e3 have final: "critic_exp_mvg_avg st' = Some ?new"
    by simp
  have nl': "compute_train_loop (length (tb_states tb)) (batch_size (cfg st)) = Inr nl"
    using nl c1 by simp
  have l: "length mbs = nat nl" "length ss = nat nl + 1" using len by simp_all
  have ub0: "update_baseline epoch (tb_neg_rewards tb) st1 = (ss ! 0, Inr ())"
    using ub first by simp
  have all: "\<forall>i \<le> nat nl. critic_exp_mvg_avg (ss ! i) = Some ?new" using keep by simp
  show ?thesis
    apply (rule exI [of _ ?new])
    apply (rule exI [of _ nl])
    apply (rule exI [of _ ss])
    apply (rule exI [of _ mbs])
    using rule processed_mean [OF pd] nl' l ub0 all loop final by blast
qed
lemma simple_cfg:
  "simple_config =
     \<lparr>optimizer_class = ''Adam'', actor_net_lr = 1 / 10000, critic_net_lr = 1 / 10000,
      reward_scale = 1, max_grad_norm = 2, batch_size = 32,
      baseline_type = ''simple'', critic_beta = 9 / 10, lr_decay = False,
      lr_decay_step = 5, lr_decay_rate = 96 / 100, normalize = False,
      normalize_reward = False\<rparr>"
  by (simp add: simple_config_def default_config_def)

lemma simple_process_data:
  assumes "cfg st = simple_config" and "rs \<noteq> []"
  shows "process_data toy_models [toy_episode rs] st
     = (st, Inr \<lparr>tb_neg_rewards = \<lparr>nrows = length rs, ncols = 1, elems = rs\<rparr>,
                 tb_states = map toy_state rs,
                 tb_actions = map (\<lambda>_. [0, 1]) rs,
                 tb_sel_cuts_nums = map (\<lambda>_. 5) rs,
                 tb_step_infos = [(''solving_time'', [1])]\<rparr>)"
proof -
  have nn: "\<not> normalize (cfg st)" using assms(1) by (simp add: simple_cfg)
  have one: "map ((*) (1::real)) rs = rs" by (induction rs) simp_all
  show ?thesis
    unfolding toy_process_data [OF nn] process_rewards_eq [OF assms(2)]
    by (simp add: assms(1) simple_cfg one)
qed

lemma first_epoch_run:
  "snd (train toy_models [toy_episode [1, 2, 3]] 1 (toy_trainer simple_config)) = Inr ()"
proof -
  have nn: "\<not> normalize (cfg (toy_trainer simple_config))"
    by (simp add: simple_cfg toy_trainer_def)
  have ne: "[1, 2, 3 :: real] \<noteq> []" by simp
  show ?thesis
    unfolding train_def train_with_def toy_process_data [OF nn] process_rewards_eq [OF ne]
    by (simp add: toy_run_simps simple_cfg numeral_3_eq_3 upt_rec)
qed

lemma second_epoch_run:
  "snd (train toy_models [toy_episode [4, 5, 6]] 2
          ((toy_trainer simple_config)\<lparr>critic_exp_mvg_avg := Some 2\<rparr>)) = Inr ()"
proof -
  have nn: "\<not> normalize (cfg ((toy_trainer simple_config)\<lparr>critic_exp_mvg_avg := Some 2\<rparr>))"
    by (simp add: simple_cfg toy_trainer_def)
  have ne: "[4, 5, 6 :: real] \<noteq> []" by simp
  show ?thesis
    unfolding train_def train_with_def toy_process_data [OF nn] process_rewards_eq [OF ne]
    by (simp add: toy_run_simps simple_cfg numeral_3_eq_3 upt_rec)
qed

text \<open>
  The two examples of the specification, on a trainer with \<open>reward_scale = 1\<close> and
  without reward normalisation: rewards \<open>[1, 2, 3]\<close> at epoch \<open>1\<close> leave the moving
  average \<open>2\<close>; from there, rewards \<open>[4, 5, 6]\<close> at epoch \<open>2\<close> with \<open>\<beta> = 0.9\<close> leave
  \<open>2.3\<close>.
\<close>

theorem train_simple_baseline_witness:
  "critic_exp_mvg_avg (fst (train toy_models [toy_episode [1, 2, 3]] 1
                              (toy_trainer simple_config))) = Some 2
   \<and> critic_exp_mvg_avg (fst (train toy_models [toy_episode [4, 5, 6]] 2
                                ((toy_trainer simple_config)\<lparr>critic_exp_mvg_avg := Some 2\<rparr>)))
       = Some (23 / 10)"
proof -
  let ?a = "toy_trainer simple_config"
  let ?b = "(toy_trainer simple_config)\<lparr>critic_exp_mvg_avg := Some 2\<rparr>"
  let ?tba = "\<lparr>tb_neg_rewards = \<lparr>nrows = length [1, 2, 3 :: real], ncols = 1, elems = [1, 2, 3]\<rparr>,
                 tb_states = map toy_state [1, 2, 3],
                 tb_actions = map (\<lambda>_. [0, 1]) [1, 2, 3 :: real],
                 tb_sel_cuts_nums = map (\<lambda>_. 5) [1, 2, 3 :: real],
                 tb_step_infos = [(''solving_time'', [1])]\<rparr>"
  let ?tbb = "\<lparr>tb_neg_rewards = \<lparr>nrows = length [4, 5, 6 :: real], ncols = 1, elems = [4, 5, 6]\<rparr>,
                 tb_states = map toy_state [4, 5, 6],
                 tb_actions = map (\<lambda>_. [0, 1]) [4, 5, 6 :: real],
                 tb_sel_cuts_nums = map (\<lambda>_. 5) [4, 5, 6 :: real],
                 tb_step_infos = [(''solving_time'', [1])]\<rparr>"
  let ?a' = "fst (train toy_models [toy_episode [1, 2, 3]] 1 ?a)"
  let ?b' = "fst (train toy_models [toy_episode [4, 5, 6]] 2 ?b)"
  have ca: "cfg ?a = simple_config" and cb: "cfg ?b = simple_config"
    by (simp_all add: toy_trainer_def)
  have sa: "baseline_type (cfg ?a) = ''simple''" and sb: "baseline_type (cfg ?b) = ''simple''"
    by (simp_all add: toy_trainer_def simple_cfg)
  have pa: "process_data toy_models [toy_episode [1, 2, 3]] ?a = (?a, Inr ?tba)"
    by (rule simple_process_data [OF ca]) simp
  have pb: "process_data toy_models [toy_episode [4, 5, 6]] ?b = (?b, Inr ?tbb)"
    by (rule simple_process_data [OF cb]) simp
  have ra: "train toy_models [toy_episode [1, 2, 3]] 1 ?a = (?a', Inr ())"
    using first_epoch_run by (simp add: prod_eq_iff)
  have rb: "train toy_models [toy_episode [4, 5, 6]] 2 ?b = (?b', Inr ())"
    using second_epoch_run by (simp add: prod_eq_iff)
  have A: "critic_exp_mvg_avg ?a' = Some 2"
    using train_simple_baseline [OF sa pa ra]
  proof (elim exE conjE)
    fix new
    assume "if (1::int) = 1 then new = np_mean (tb_neg_rewards ?tba)
            else \<exists>ema. critic_exp_mvg_avg ?a = Some ema
                   \<and> new = ema * critic_beta (cfg ?a)
                           + (1 - critic_beta (cfg ?a)) * np_mean (tb_neg_rewards ?tba)"
      and "critic_exp_mvg_avg ?a' = Some new"
    then show ?thesis by (simp add: np_mean_def list_mean_def)
  qed
  have B: "critic_exp_mvg_avg ?b' = Some (23 / 10)"
    using train_simple_baseline [OF sb pb rb]
  proof (elim exE conjE)
    fix new
    assume "if (2::int) = 1 then new = np_mean (tb_neg_rewards ?tbb)
            else \<exists>ema. critic_exp_mvg_avg ?b = Some ema
                   \<and> new = ema * critic_beta (cfg ?b)
                           + (1 - critic_beta (cfg ?b)) * np_mean (tb_neg_rewards ?tbb)"
      and "critic_exp_mvg_avg ?b' = Some new"
    then show ?thesis by (simp add: np_mean_def list_mean_def toy_trainer_def simple_cfg)
  qed
  from A B show ?thesis by simp
qed

lemma normalized_cfg:
  "normalized_simple_config =
     \<lparr>optimizer_class = ''Adam'', actor_net_lr = 1 / 10000, critic_net_lr = 1 / 10000,
      reward_scale = 1, max_grad_norm = 2, batch_size = 32,
      baseline_type = ''simple'', critic_beta = 9 / 10, lr_decay = False,
      lr_decay_step = 5, lr_decay_rate = 96 / 100, normalize = False,
      normalize_reward = True\<rparr>"
  by (simp add: normalized_simple_config_def default_config_def)

text \<open>
  The claim fails on a trainer that normalises rewards, as the constructor's default
  does: the rewards \<open>[1, 2, 3]\<close> at epoch \<open>1\<close> leave the moving average \<open>0\<close>, the mean
  of the normalised rewards, not \<open>2\<close>.
\<close>

theorem normalized_baseline_counterexample:
  "critic_exp_mvg_avg (fst (train toy_models [toy_episode [1, 2, 3]] 1
                              (toy_trainer normalized_simple_config))) = Some 0
   \<and> critic_exp_mvg_avg (fst (train toy_models [toy_episode [1, 2, 3]] 1
                                (toy_trainer normalized_simple_config))) \<noteq> Some 2"
proof -
  let ?st = "toy_trainer normalized_simple_config"
  have c: "cfg ?st = normalized_simple_config" by (simp add: toy_trainer_def)
  have nn: "\<not> normalize (cfg ?st)" by (simp add: toy_trainer_def normalized_cfg)
  have ne: "[1, 2, 3 :: real] \<noteq> []" by simp
  obtain st1 r where pd0: "process_data toy_models [toy_episode [1, 2, 3]] ?st = (st1, r)"
    by (cases "process_data toy_models [toy_episode [1, 2, 3]] ?st")
  have "\<exists>tb. r = Inr tb \<and> length (tb_states tb) = 3"
    using pd0 unfolding toy_process_data [OF nn] process_rewards_eq [OF ne]
    by (auto simp: Let_def c normalized_cfg)
  then obtain tb where r: "r = Inr tb" and n: "length (tb_states tb) = 3" by blast
  from pd0 r have pd: "process_data toy_models [toy_episode [1, 2, 3]] ?st = (st1, Inr tb)"
    by simp
  have f: "normalize_reward (cfg ?st)" "baseline_type (cfg ?st) = ''simple''"
    "batch_size (cfg ?st) = 32"
    by (simp_all add: toy_trainer_def normalized_cfg)
  from process_data_props [OF pd] have c1: "cfg st1 = cfg ?st" by simp
  from processed_mean [OF pd] f(1) have m: "np_mean (tb_neg_rewards tb) = 0"
    by (simp only: if_True)
  have nl: "compute_train_loop (length (tb_states tb)) (batch_size (cfg st1)) = Inr 1"
    by (simp add: n c1 f compute_train_loop_def)
  have ub: "update_baseline 1 (tb_neg_rewards tb) st1
      = (st1\<lparr>critic_exp_mvg_avg := Some 0\<rparr>, Inr ())"
    by (simp add: update_baseline_def c1 f m)
  from train_ema_kept [OF pd nl ub] show ?thesis by simp
qed

end
